theory Spec2Isabelle
  imports Complex_Main
begin

section \<open>Scalars\<close>

text \<open>
  The class \<open>RotationalInertia<T>\<close> of \<open>multibody/tree/rotational_inertia.h\<close> is a template
  over its scalar \<open>T\<close>. The scalar modelled here has the special values of a \<open>double\<close>
  (not-a-number and the two infinities) next to the finite values, and the operators follow
  the IEEE rules for those special values: NaN is absorbing, \<open>\<infinity> - \<infinity>\<close> and \<open>0 * \<infinity>\<close> are NaN,
  every comparison with NaN is false. On finite values the arithmetic is the exact arithmetic
  of the reals: rounding, overflow and the sign of zero are not represented.
\<close>

datatype scalar = Fin real | PInf | NInf | NaN

fun isnan :: "scalar \<Rightarrow> bool" where
  "isnan NaN = True"
| "isnan _ = False"

fun isfinite :: "scalar \<Rightarrow> bool" where
  "isfinite (Fin _) = True"
| "isfinite _ = False"

text \<open>The real number held by a finite scalar (0 for the special values).\<close>

fun val :: "scalar \<Rightarrow> real" where
  "val (Fin a) = a"
| "val _ = 0"

instantiation scalar :: uminus
begin

fun uminus_scalar :: "scalar \<Rightarrow> scalar" where
  "uminus_scalar (Fin a) = Fin (- a)"
| "uminus_scalar PInf = NInf"
| "uminus_scalar NInf = PInf"
| "uminus_scalar NaN = NaN"

instance ..

end

instantiation scalar :: plus
begin

fun plus_scalar :: "scalar \<Rightarrow> scalar \<Rightarrow> scalar" where
  "plus_scalar NaN _ = NaN"
| "plus_scalar _ NaN = NaN"
| "plus_scalar (Fin a) (Fin b) = Fin (a + b)"
| "plus_scalar PInf NInf = NaN"
| "plus_scalar NInf PInf = NaN"
| "plus_scalar PInf _ = PInf"
| "plus_scalar _ PInf = PInf"
| "plus_scalar NInf _ = NInf"
| "plus_scalar _ NInf = NInf"

instance ..

end

instantiation scalar :: minus
begin

definition minus_scalar :: "scalar \<Rightarrow> scalar \<Rightarrow> scalar" where
  "minus_scalar a b = a + (- b)"

instance ..

end

text \<open>The sign of an infinite product or quotient: the infinity \<open>PInf\<close> when \<open>pos\<close>.\<close>

definition signed_inf :: "bool \<Rightarrow> scalar" where
  "signed_inf pos = (if pos then PInf else NInf)"

instantiation scalar :: times
begin

fun times_scalar :: "scalar \<Rightarrow> scalar \<Rightarrow> scalar" where
  "times_scalar NaN _ = NaN"
| "times_scalar _ NaN = NaN"
| "times_scalar (Fin a) (Fin b) = Fin (a * b)"
| "times_scalar (Fin a) PInf = (if a = 0 then NaN else signed_inf (0 < a))"
| "times_scalar (Fin a) NInf = (if a = 0 then NaN else signed_inf (a < 0))"
| "times_scalar PInf (Fin b) = (if b = 0 then NaN else signed_inf (0 < b))"
| "times_scalar NInf (Fin b) = (if b = 0 then NaN else signed_inf (b < 0))"
| "times_scalar PInf PInf = PInf"
| "times_scalar NInf NInf = PInf"
| "times_scalar PInf NInf = NInf"
| "times_scalar NInf PInf = NInf"

instance ..

end

instantiation scalar :: inverse
begin

fun divide_scalar :: "scalar \<Rightarrow> scalar \<Rightarrow> scalar" where
  "divide_scalar NaN _ = NaN"
| "divide_scalar _ NaN = NaN"
| "divide_scalar (Fin a) (Fin b) =
     (if b = 0 then (if a = 0 then NaN else signed_inf (0 < a)) else Fin (a / b))"
| "divide_scalar (Fin a) _ = Fin 0"
| "divide_scalar PInf (Fin b) = signed_inf (0 \<le> b)"
| "divide_scalar NInf (Fin b) = signed_inf (b < 0)"
| "divide_scalar _ _ = NaN"

definition inverse_scalar :: "scalar \<Rightarrow> scalar" where
  "inverse_scalar a = divide (Fin 1) (a::scalar)"

instance ..

end

instantiation scalar :: abs
begin

fun abs_scalar :: "scalar \<Rightarrow> scalar" where
  "abs_scalar (Fin a) = Fin \<bar>a\<bar>"
| "abs_scalar PInf = PInf"
| "abs_scalar NInf = PInf"
| "abs_scalar NaN = NaN"

instance ..

end

instantiation scalar :: ord
begin

fun less_scalar :: "scalar \<Rightarrow> scalar \<Rightarrow> bool" where
  "less_scalar NaN _ = False"
| "less_scalar _ NaN = False"
| "less_scalar (Fin a) (Fin b) = (a < b)"
| "less_scalar _ NInf = False"
| "less_scalar PInf _ = False"
| "less_scalar _ _ = True"

fun less_eq_scalar :: "scalar \<Rightarrow> scalar \<Rightarrow> bool" where
  "less_eq_scalar NaN _ = False"
| "less_eq_scalar _ NaN = False"
| "less_eq_scalar (Fin a) (Fin b) = (a \<le> b)"
| "less_eq_scalar NInf _ = True"
| "less_eq_scalar _ PInf = True"
| "less_eq_scalar _ _ = False"

instance ..

end

text \<open>\<open>std::min(a, b)\<close> is \<open>(b < a) ? b : a\<close> and \<open>std::max(a, b)\<close> is \<open>(a < b) ? b : a\<close>.\<close>

definition std_min :: "scalar \<Rightarrow> scalar \<Rightarrow> scalar" where
  "std_min a b = (if b < a then b else a)"

definition std_max :: "scalar \<Rightarrow> scalar \<Rightarrow> scalar" where
  "std_max a b = (if a < b then b else a)"

type_synonym Vector3 = "scalar \<times> scalar \<times> scalar"

text \<open>Eigen's unary minus and scalar product of a 3-vector, elementwise.\<close>

fun neg_v :: "Vector3 \<Rightarrow> Vector3" where
  "neg_v (x, y, z) = (- x, - y, - z)"

fun scale_v :: "scalar \<Rightarrow> Vector3 \<Rightarrow> Vector3" where
  "scale_v s (x, y, z) = (s * x, s * y, s * z)"

fun minus_v :: "Vector3 \<Rightarrow> Vector3 \<Rightarrow> Vector3" where
  "minus_v (a, b, c) (x, y, z) = (a - x, b - y, c - z)"

text \<open>
  \<open>lpNorm<Eigen::Infinity>()\<close>: the largest absolute value of the coefficients. Eigen is
  an external library; its reduction is written here as a fold of \<open>std::max\<close>. The order of
  the fold matters only when a coefficient is NaN.
\<close>

fun lpNorm_Infinity :: "Vector3 \<Rightarrow> scalar" where
  "lpNorm_Infinity (x, y, z) = std_max (std_max \<bar>x\<bar> \<bar>y\<bar>) \<bar>z\<bar>"

section \<open>Storage\<close>

text \<open>
  The only data member is the 3x3 matrix \<open>I_SP_E_\<close>. The record holds its nine entries,
  \<open>mij\<close> being row \<open>i\<close>, column \<open>j\<close>. The class uses the lower triangle only:
  \<open>m00 m11 m22\<close> are the moments Ixx Iyy Izz, \<open>m10 m20 m21\<close> the products Ixy Ixz Iyz,
  and \<open>m01 m02 m12\<close> is the upper triangle that the class never reads.
\<close>

record RotationalInertia =
  m00 :: scalar
  m01 :: scalar
  m02 :: scalar
  m10 :: scalar
  m11 :: scalar
  m12 :: scalar
  m20 :: scalar
  m21 :: scalar
  m22 :: scalar

text \<open>\<open>Matrix3<T>::Constant(c)\<close>, the initialiser of \<open>I_SP_E_\<close> with \<open>c\<close> a quiet NaN.\<close>

definition Matrix3_Constant :: "scalar \<Rightarrow> RotationalInertia" where
  "Matrix3_Constant c =
     \<lparr>m00 = c, m01 = c, m02 = c, m10 = c, m11 = c, m12 = c, m20 = c, m21 = c, m22 = c\<rparr>"

text \<open>The default constructor \<open>RotationalInertia()\<close>: every entry is NaN.\<close>

definition RotationalInertia_default :: RotationalInertia where
  "RotationalInertia_default = Matrix3_Constant NaN"

definition SetToNaN :: "RotationalInertia \<Rightarrow> RotationalInertia" where
  "SetToNaN I = Matrix3_Constant NaN"

definition set_moments_and_products_no_validity_check ::
  "scalar \<Rightarrow> scalar \<Rightarrow> scalar \<Rightarrow> scalar \<Rightarrow> scalar \<Rightarrow> scalar \<Rightarrow> RotationalInertia
     \<Rightarrow> RotationalInertia" where
  "set_moments_and_products_no_validity_check Ixx Iyy Izz Ixy Ixz Iyz I =
     I\<lparr>m00 := Ixx, m11 := Iyy, m22 := Izz, m10 := Ixy, m20 := Ixz, m21 := Iyz\<rparr>"

definition get_moments :: "RotationalInertia \<Rightarrow> Vector3" where
  "get_moments I = (m00 I, m11 I, m22 I)"

definition get_products :: "RotationalInertia \<Rightarrow> Vector3" where
  "get_products I = (m10 I, m20 I, m21 I)"

definition Trace :: "RotationalInertia \<Rightarrow> scalar" where
  "Trace I = m00 I + m11 I + m22 I"

definition CalcMaximumPossibleMomentOfInertia :: "RotationalInertia \<Rightarrow> scalar" where
  "CalcMaximumPossibleMomentOfInertia I = Fin (1 / 2) * \<bar>Trace I\<bar>"

text \<open>
  \<open>SetZero\<close> assigns through \<open>triangularView<Eigen::Lower>()\<close>: the six entries of the
  lower triangle are written, the three upper ones are left as they are.
\<close>

definition SetZero :: "RotationalInertia \<Rightarrow> RotationalInertia" where
  "SetZero I =
     I\<lparr>m00 := Fin 0, m10 := Fin 0, m11 := Fin 0, m20 := Fin 0, m21 := Fin 0, m22 := Fin 0\<rparr>"

definition IsFinite :: "RotationalInertia \<Rightarrow> bool" where
  "IsFinite I \<longleftrightarrow>
     isfinite (m00 I) \<and> isfinite (m10 I) \<and> isfinite (m11 I) \<and>
     isfinite (m20 I) \<and> isfinite (m21 I) \<and> isfinite (m22 I)"

definition IsNaN :: "RotationalInertia \<Rightarrow> bool" where
  "IsNaN I \<longleftrightarrow>
     isnan (m00 I) \<or> isnan (m10 I) \<or> isnan (m11 I) \<or>
     isnan (m20 I) \<or> isnan (m21 I) \<or> isnan (m22 I)"

text \<open>
  \<open>x == 0.0\<close> is false for a NaN \<open>x\<close>; so is \<open>x = Fin 0\<close>, and the two agree on every
  scalar.
\<close>

definition IsZero :: "RotationalInertia \<Rightarrow> bool" where
  "IsZero I \<longleftrightarrow>
     m00 I = Fin 0 \<and> m10 I = Fin 0 \<and> m11 I = Fin 0 \<and>
     m20 I = Fin 0 \<and> m21 I = Fin 0 \<and> m22 I = Fin 0"

text \<open>Two matrices with the same six entries in the lower triangle.\<close>

definition same_lower :: "RotationalInertia \<Rightarrow> RotationalInertia \<Rightarrow> bool" where
  "same_lower I J \<longleftrightarrow>
     m00 I = m00 J \<and> m10 I = m10 J \<and> m11 I = m11 J \<and>
     m20 I = m20 J \<and> m21 I = m21 J \<and> m22 I = m22 J"

text \<open>The three entries above the diagonal.\<close>

definition upper :: "RotationalInertia \<Rightarrow> Vector3" where
  "upper I = (m01 I, m02 I, m12 I)"

section \<open>Errors and assertions\<close>

text \<open>
  Every failure of the class is a thrown \<open>std::logic_error\<close>; the constructors of \<open>error\<close>
  tell the throwing sites apart. \<open>NotPhysicallyValid\<close> is the invalid-construction failure,
  the other three are the invalid-scale failures of \<open>ThrowIfMultiplyByNegativeScalar\<close> and
  \<open>ThrowIfDivideByZeroOrNegativeScalar\<close>.
\<close>

datatype error =
  NotPhysicallyValid | MultiplyByNegativeScalar | DivideByZero | DivideByNegativeScalar

fun invalid_scale :: "error \<Rightarrow> bool" where
  "invalid_scale NotPhysicallyValid = False"
| "invalid_scale _ = True"

text \<open>
  Modelled from the spec: the macro \<open>DRAKE_ASSERT_VOID\<close> of \<open>drake/common/drake_assert.h\<close>
  is not among the sources. Its argument is evaluated in a build with assertions armed (a
  debug build, the checked configuration) and is compiled away otherwise; \<open>armed\<close> is that
  build setting, and the argument is the exception the guarded call would throw, if any.
\<close>

definition DRAKE_ASSERT_VOID :: "bool \<Rightarrow> error option \<Rightarrow> error option" where
  "DRAKE_ASSERT_VOID armed thrown = (if armed then thrown else None)"

text \<open>
  A member function that changes its receiver returns the exception it threw, if any, and
  the receiver as the call left it. The receiver is the last argument.
\<close>

type_synonym in_place = "error option \<times> RotationalInertia"

text \<open>
  The const forms copy the receiver into a local \<open>result\<close>, call the in-place form on it and
  return it; when the call throws, the copy is gone and the exception is the outcome.
\<close>

fun returning :: "in_place \<Rightarrow> error + RotationalInertia" where
  "returning (Some e, _) = Inl e"
| "returning (None, I) = Inr I"

section \<open>Validity checker\<close>

definition AreMomentsOfInertiaNearPositive ::
  "scalar \<Rightarrow> scalar \<Rightarrow> scalar \<Rightarrow> scalar \<Rightarrow> bool" where
  "AreMomentsOfInertiaNearPositive Ixx Iyy Izz epsilon \<longleftrightarrow>
     Fin 0 \<le> Ixx + epsilon \<and> Fin 0 \<le> Iyy + epsilon \<and> Fin 0 \<le> Izz + epsilon"

text \<open>
  Modelled from the spec: the body of
  \<open>AreMomentsOfInertiaNearPositiveAndSatisfyTriangleInequality\<close> is in
  \<open>rotational_inertia.cc\<close>, which is not among the sources. Following the spec, every moment
  is at least \<open>-\<epsilon>\<close> and the three triangle inequalities hold within \<open>\<epsilon>\<close>, where \<open>\<epsilon>\<close> is
  proportional to the tensor's scale: a factor \<open>prec\<close> (a parameter, since its value is not
  in the sources) times the largest possible moment.
\<close>

definition AreMomentsOfInertiaNearPositiveAndSatisfyTriangleInequality ::
  "real \<Rightarrow> RotationalInertia \<Rightarrow> bool" where
  "AreMomentsOfInertiaNearPositiveAndSatisfyTriangleInequality prec I \<longleftrightarrow>
     (let epsilon = Fin prec * CalcMaximumPossibleMomentOfInertia I;
          Ixx = m00 I; Iyy = m11 I; Izz = m22 I
      in AreMomentsOfInertiaNearPositive Ixx Iyy Izz epsilon \<and>
         Izz \<le> Ixx + Iyy + epsilon \<and>
         Iyy \<le> Ixx + Izz + epsilon \<and>
         Ixx \<le> Iyy + Izz + epsilon)"

datatype invalidity = NaN_detected | Moments_invalid

text \<open>
  Modelled from the spec: the body of \<open>CreateInvalidityReport\<close> is in
  \<open>rotational_inertia.cc\<close>, which is not among the sources. Following the spec, a report
  is made when a stored value is NaN, a moment is below \<open>-\<epsilon>\<close> or a triangle inequality
  fails beyond \<open>\<epsilon>\<close>; the text of the report is not modelled.
\<close>

definition CreateInvalidityReport :: "real \<Rightarrow> RotationalInertia \<Rightarrow> invalidity option" where
  "CreateInvalidityReport prec I =
     (if IsNaN I then Some NaN_detected
      else if \<not> AreMomentsOfInertiaNearPositiveAndSatisfyTriangleInequality prec I
      then Some Moments_invalid
      else None)"

definition CouldBePhysicallyValid :: "real \<Rightarrow> RotationalInertia \<Rightarrow> bool" where
  "CouldBePhysicallyValid prec I \<longleftrightarrow> CreateInvalidityReport prec I = None"

text \<open>
  Modelled from the spec: the body of \<open>ThrowIfNotPhysicallyValidImpl\<close> is in
  \<open>rotational_inertia.cc\<close>, which is not among the sources; by its declaration it throws
  when \<open>CreateInvalidityReport\<close> returns a report. The scalar is a numeric one
  (\<open>scalar_predicate<T>::is_bool\<close>), so \<open>ThrowIfNotPhysicallyValid\<close> calls it.
\<close>

definition ThrowIfNotPhysicallyValid :: "real \<Rightarrow> RotationalInertia \<Rightarrow> error option" where
  "ThrowIfNotPhysicallyValid prec I =
     (case CreateInvalidityReport prec I of
        Some _ \<Rightarrow> Some NotPhysicallyValid
      | None \<Rightarrow> None)"

definition ThrowIfMultiplyByNegativeScalar :: "scalar \<Rightarrow> error option" where
  "ThrowIfMultiplyByNegativeScalar nonnegative_scalar =
     (if nonnegative_scalar < Fin 0 then Some MultiplyByNegativeScalar else None)"

definition ThrowIfDivideByZeroOrNegativeScalar :: "scalar \<Rightarrow> error option" where
  "ThrowIfDivideByZeroOrNegativeScalar positive_scalar =
     (if positive_scalar = Fin 0 then Some DivideByZero
      else if positive_scalar < Fin 0 then Some DivideByNegativeScalar
      else None)"

section \<open>Comparison\<close>

definition IsApproxMomentsAndProducts ::
  "RotationalInertia \<Rightarrow> scalar \<Rightarrow> RotationalInertia \<Rightarrow> bool" where
  "IsApproxMomentsAndProducts other epsilon I \<longleftrightarrow>
     (let moment_difference = minus_v (get_moments I) (get_moments other);
          product_difference = minus_v (get_products I) (get_products other);
          moment_max = lpNorm_Infinity moment_difference;
          product_max = lpNorm_Infinity product_difference
      in moment_max \<le> epsilon \<and> product_max \<le> epsilon)"

definition IsNearlyEqualTo :: "RotationalInertia \<Rightarrow> real \<Rightarrow> RotationalInertia \<Rightarrow> bool" where
  "IsNearlyEqualTo other precision I \<longleftrightarrow>
     (let I_maxA = CalcMaximumPossibleMomentOfInertia I;
          I_maxB = CalcMaximumPossibleMomentOfInertia other;
          I_test = std_min I_maxA I_maxB;
          epsilon = Fin precision * I_test
      in IsApproxMomentsAndProducts other epsilon I)"

section \<open>Arithmetic\<close>

text \<open>
  The compound operators work through \<open>get_mutable_triangular_view()\<close>: the six entries
  of the lower triangle are updated, the upper triangle is left alone.
\<close>

definition plus_eq :: "RotationalInertia \<Rightarrow> RotationalInertia \<Rightarrow> RotationalInertia" where
  "plus_eq I_BP_E I =
     I\<lparr>m00 := m00 I + m00 I_BP_E, m10 := m10 I + m10 I_BP_E, m11 := m11 I + m11 I_BP_E,
       m20 := m20 I + m20 I_BP_E, m21 := m21 I + m21 I_BP_E, m22 := m22 I + m22 I_BP_E\<rparr>"

definition MinusEqualsUnchecked ::
  "RotationalInertia \<Rightarrow> RotationalInertia \<Rightarrow> RotationalInertia" where
  "MinusEqualsUnchecked I_BP_E I =
     I\<lparr>m00 := m00 I - m00 I_BP_E, m10 := m10 I - m10 I_BP_E, m11 := m11 I - m11 I_BP_E,
       m20 := m20 I - m20 I_BP_E, m21 := m21 I - m21 I_BP_E, m22 := m22 I - m22 I_BP_E\<rparr>"

text \<open>\<open>get_mutable_triangular_view() *= s\<close>.\<close>

definition scale_lower :: "scalar \<Rightarrow> RotationalInertia \<Rightarrow> RotationalInertia" where
  "scale_lower s I =
     I\<lparr>m00 := m00 I * s, m10 := m10 I * s, m11 := m11 I * s,
       m20 := m20 I * s, m21 := m21 I * s, m22 := m22 I * s\<rparr>"

text \<open>\<open>operator-=\<close>: subtract in place, then check what the receiver now holds.\<close>

definition minus_eq :: "bool \<Rightarrow> real \<Rightarrow> RotationalInertia \<Rightarrow> RotationalInertia \<Rightarrow> in_place" where
  "minus_eq armed prec I_BP_E I =
     (let I' = MinusEqualsUnchecked I_BP_E I
      in (DRAKE_ASSERT_VOID armed (ThrowIfNotPhysicallyValid prec I'), I'))"

text \<open>\<open>operator-\<close>: \<open>RotationalInertia(*this) -= I_BP_E\<close>.\<close>

definition minus_op ::
  "bool \<Rightarrow> real \<Rightarrow> RotationalInertia \<Rightarrow> RotationalInertia \<Rightarrow> error + RotationalInertia" where
  "minus_op armed prec I_BP_E I = returning (minus_eq armed prec I_BP_E I)"

text \<open>\<open>operator*=\<close>: check the scalar, then scale in place.\<close>

definition times_eq :: "bool \<Rightarrow> scalar \<Rightarrow> RotationalInertia \<Rightarrow> in_place" where
  "times_eq armed nonnegative_scalar I =
     (case DRAKE_ASSERT_VOID armed (ThrowIfMultiplyByNegativeScalar nonnegative_scalar) of
        Some e \<Rightarrow> (Some e, I)
      | None \<Rightarrow> (None, scale_lower nonnegative_scalar I))"

text \<open>Both \<open>operator*\<close>: \<open>RotationalInertia(I_BP_E) *= nonnegative_scalar\<close>.\<close>

definition times_op :: "bool \<Rightarrow> scalar \<Rightarrow> RotationalInertia \<Rightarrow> error + RotationalInertia" where
  "times_op armed nonnegative_scalar I = returning (times_eq armed nonnegative_scalar I)"

text \<open>\<open>operator/=\<close>: check the scalar, then scale in place by its reciprocal.\<close>

definition divide_eq :: "bool \<Rightarrow> scalar \<Rightarrow> RotationalInertia \<Rightarrow> in_place" where
  "divide_eq armed positive_scalar I =
     (case DRAKE_ASSERT_VOID armed (ThrowIfDivideByZeroOrNegativeScalar positive_scalar) of
        Some e \<Rightarrow> (Some e, I)
      | None \<Rightarrow>
          (let one_over_positive_scalar = Fin 1 / positive_scalar
           in (None, scale_lower one_over_positive_scalar I)))"

definition divide_op :: "bool \<Rightarrow> scalar \<Rightarrow> RotationalInertia \<Rightarrow> error + RotationalInertia" where
  "divide_op armed positive_scalar I = returning (divide_eq armed positive_scalar I)"

definition MultiplyByScalarSkipValidityCheck ::
  "scalar \<Rightarrow> RotationalInertia \<Rightarrow> RotationalInertia" where
  "MultiplyByScalarSkipValidityCheck s I = scale_lower s I"

text \<open>
  \<open>operator*(const Vector3<T>& w_E)\<close>: the product of the symmetric matrix with a vector,
  computed from the lower triangle.
\<close>

fun times_vector :: "Vector3 \<Rightarrow> RotationalInertia \<Rightarrow> Vector3" where
  "times_vector (x, y, z) I =
     (let a = m00 I; b = m10 I; c = m20 I; d = m11 I; e = m21 I; f = m22 I
      in (a * x + b * y + c * z, b * x + d * y + e * z, c * x + e * y + f * z))"

section \<open>Constructors\<close>

text \<open>
  A constructor returns the new object, or the exception it threw. The matrix starts from
  its member initialiser, all NaN; the setter fills the lower triangle.
\<close>

definition RotationalInertia6 ::
  "bool \<Rightarrow> real \<Rightarrow> scalar \<Rightarrow> scalar \<Rightarrow> scalar \<Rightarrow> scalar \<Rightarrow> scalar \<Rightarrow> scalar
     \<Rightarrow> error + RotationalInertia" where
  "RotationalInertia6 armed prec Ixx Iyy Izz Ixy Ixz Iyz =
     (let I = set_moments_and_products_no_validity_check Ixx Iyy Izz Ixy Ixz Iyz
                RotationalInertia_default
      in case DRAKE_ASSERT_VOID armed (ThrowIfNotPhysicallyValid prec I) of
           Some e \<Rightarrow> Inl e
         | None \<Rightarrow> Inr I)"

definition RotationalInertia3 ::
  "bool \<Rightarrow> real \<Rightarrow> scalar \<Rightarrow> scalar \<Rightarrow> scalar \<Rightarrow> error + RotationalInertia" where
  "RotationalInertia3 armed prec Ixx Iyy Izz =
     RotationalInertia6 armed prec Ixx Iyy Izz (Fin 0) (Fin 0) (Fin 0)"

definition TriaxiallySymmetric :: "bool \<Rightarrow> real \<Rightarrow> scalar \<Rightarrow> error + RotationalInertia" where
  "TriaxiallySymmetric armed prec I_triaxial =
     RotationalInertia6 armed prec I_triaxial I_triaxial I_triaxial (Fin 0) (Fin 0) (Fin 0)"

text \<open>The check of this factory is not an assertion: it runs in every build.\<close>

definition MakeFromMomentsAndProductsOfInertia ::
  "real \<Rightarrow> scalar \<Rightarrow> scalar \<Rightarrow> scalar \<Rightarrow> scalar \<Rightarrow> scalar \<Rightarrow> scalar \<Rightarrow> bool
     \<Rightarrow> error + RotationalInertia" where
  "MakeFromMomentsAndProductsOfInertia prec Ixx Iyy Izz Ixy Ixz Iyz skip_validity_check =
     (let I = set_moments_and_products_no_validity_check Ixx Iyy Izz Ixy Ixz Iyz
                RotationalInertia_default
      in case (if \<not> skip_validity_check then ThrowIfNotPhysicallyValid prec I else None) of
           Some e \<Rightarrow> Inl e
         | None \<Rightarrow> Inr I)"

text \<open>
  The private constructor \<open>RotationalInertia(mass_p_PQ_E, p_PQ_E)\<close>, whose first argument
  is the position already multiplied by the mass.
\<close>

fun RotationalInertia_mp ::
  "bool \<Rightarrow> real \<Rightarrow> Vector3 \<Rightarrow> Vector3 \<Rightarrow> error + RotationalInertia" where
  "RotationalInertia_mp armed prec (mx, my, mz) (x, y, z) =
     (let mxx = mx * x; myy = my * y; mzz = mz * z;
          I = set_moments_and_products_no_validity_check
                (myy + mzz) (mxx + mzz) (mxx + myy)
                ((- mx) * y) ((- mx) * z) ((- my) * z)
                RotationalInertia_default
      in case DRAKE_ASSERT_VOID armed (ThrowIfNotPhysicallyValid prec I) of
           Some e \<Rightarrow> Inl e
         | None \<Rightarrow> Inr I)"

text \<open>The point-mass constructor \<open>RotationalInertia(mass, p_PQ_E)\<close>.\<close>

definition RotationalInertia_point ::
  "bool \<Rightarrow> real \<Rightarrow> scalar \<Rightarrow> Vector3 \<Rightarrow> error + RotationalInertia" where
  "RotationalInertia_point armed prec mass p_PQ_E =
     RotationalInertia_mp armed prec (scale_v mass p_PQ_E) p_PQ_E"

section \<open>Shift methods\<close>

definition ShiftFromCenterOfMassInPlace ::
  "bool \<Rightarrow> real \<Rightarrow> scalar \<Rightarrow> Vector3 \<Rightarrow> RotationalInertia \<Rightarrow> in_place" where
  "ShiftFromCenterOfMassInPlace armed prec mass p_BcmQ_E I =
     (case RotationalInertia_point armed prec mass p_BcmQ_E of
        Inl e \<Rightarrow> (Some e, I)
      | Inr pm \<Rightarrow> (None, plus_eq pm I))"

definition ShiftFromCenterOfMass ::
  "bool \<Rightarrow> real \<Rightarrow> scalar \<Rightarrow> Vector3 \<Rightarrow> RotationalInertia \<Rightarrow> error + RotationalInertia" where
  "ShiftFromCenterOfMass armed prec mass p_BcmQ_E I =
     returning (ShiftFromCenterOfMassInPlace armed prec mass p_BcmQ_E I)"

definition ShiftToCenterOfMassInPlace ::
  "bool \<Rightarrow> real \<Rightarrow> scalar \<Rightarrow> Vector3 \<Rightarrow> RotationalInertia \<Rightarrow> in_place" where
  "ShiftToCenterOfMassInPlace armed prec mass p_QBcm_E I =
     (case RotationalInertia_point armed prec mass p_QBcm_E of
        Inl e \<Rightarrow> (Some e, I)
      | Inr pm \<Rightarrow> minus_eq armed prec pm I)"

definition ShiftToCenterOfMass ::
  "bool \<Rightarrow> real \<Rightarrow> scalar \<Rightarrow> Vector3 \<Rightarrow> RotationalInertia \<Rightarrow> error + RotationalInertia" where
  "ShiftToCenterOfMass armed prec mass p_QBcm_E I =
     returning (ShiftToCenterOfMassInPlace armed prec mass p_QBcm_E I)"

text \<open>
  \<open>shift_away\<close> is constructed before \<open>shift_towards\<close>; the difference is taken with the
  unchecked subtraction.
\<close>

definition ShiftUnitMassBodyToThenAwayFromCenterOfMass ::
  "bool \<Rightarrow> real \<Rightarrow> Vector3 \<Rightarrow> Vector3 \<Rightarrow> error + RotationalInertia" where
  "ShiftUnitMassBodyToThenAwayFromCenterOfMass armed prec p_PBcm_E p_QBcm_E =
     (case RotationalInertia_mp armed prec p_QBcm_E p_QBcm_E of
        Inl e \<Rightarrow> Inl e
      | Inr shift_away \<Rightarrow>
          (case RotationalInertia_mp armed prec p_PBcm_E p_PBcm_E of
             Inl e \<Rightarrow> Inl e
           | Inr shift_towards \<Rightarrow> Inr (MinusEqualsUnchecked shift_towards shift_away)))"

definition ShiftToThenAwayFromCenterOfMassInPlace ::
  "bool \<Rightarrow> real \<Rightarrow> scalar \<Rightarrow> Vector3 \<Rightarrow> Vector3 \<Rightarrow> RotationalInertia \<Rightarrow> in_place" where
  "ShiftToThenAwayFromCenterOfMassInPlace armed prec mass p_PBcm_E p_QBcm_E I =
     (case ShiftUnitMassBodyToThenAwayFromCenterOfMass armed prec p_PBcm_E p_QBcm_E of
        Inl e \<Rightarrow> (Some e, I)
      | Inr unit_shift \<Rightarrow>
          (case times_op armed mass unit_shift of
             Inl e \<Rightarrow> (Some e, I)
           | Inr shift \<Rightarrow> (None, plus_eq shift I)))"

definition ShiftToThenAwayFromCenterOfMass ::
  "bool \<Rightarrow> real \<Rightarrow> scalar \<Rightarrow> Vector3 \<Rightarrow> Vector3 \<Rightarrow> RotationalInertia
     \<Rightarrow> error + RotationalInertia" where
  "ShiftToThenAwayFromCenterOfMass armed prec mass p_PBcm_E p_QBcm_E I =
     returning (ShiftToThenAwayFromCenterOfMassInPlace armed prec mass p_PBcm_E p_QBcm_E I)"

text \<open>
  One in-place call after another on the same receiver: an exception of the first call
  ends the sequence.
\<close>

definition and_then :: "in_place \<Rightarrow> (RotationalInertia \<Rightarrow> in_place) \<Rightarrow> in_place" where
  "and_then r f = (case r of (Some e, I) \<Rightarrow> (Some e, I) | (None, I) \<Rightarrow> f I)"

section \<open>Principal moments and axes\<close>

type_synonym Vector3d = "real \<times> real \<times> real"

fun vec :: "Vector3d \<Rightarrow> Vector3" where
  "vec (x, y, z) = (Fin x, Fin y, Fin z)"

fun dot :: "Vector3d \<Rightarrow> Vector3d \<Rightarrow> real" where
  "dot (a, b, c) (x, y, z) = a * x + b * y + c * z"

fun cross :: "Vector3d \<Rightarrow> Vector3d \<Rightarrow> Vector3d" where
  "cross (a, b, c) (x, y, z) = (b * z - c * y, c * x - a * z, a * y - b * x)"

fun scale_d :: "real \<Rightarrow> Vector3d \<Rightarrow> Vector3d" where
  "scale_d l (x, y, z) = (l * x, l * y, l * z)"

text \<open>
  Modelled from the spec: \<open>math::RotationMatrix<double>\<close> of
  \<open>drake/math/rotation_matrix.h\<close> is not among the sources. A rotation matrix is given by
  its three columns; it is orthonormal (its columns and its rows are orthonormal) and proper
  (determinant +1).
\<close>

type_synonym RotationMatrix = "Vector3d \<times> Vector3d \<times> Vector3d"

definition Identity_rotation :: RotationMatrix where
  "Identity_rotation = ((1, 0, 0), (0, 1, 0), (0, 0, 1))"

fun transpose3 :: "RotationMatrix \<Rightarrow> RotationMatrix" where
  "transpose3 ((x1, x2, x3), (y1, y2, y3), (z1, z2, z3)) =
     ((x1, y1, z1), (x2, y2, z2), (x3, y3, z3))"

fun orthonormal3 :: "RotationMatrix \<Rightarrow> bool" where
  "orthonormal3 (a, b, c) \<longleftrightarrow>
     dot a a = 1 \<and> dot b b = 1 \<and> dot c c = 1 \<and> dot a b = 0 \<and> dot a c = 0 \<and> dot b c = 0"

fun det3 :: "RotationMatrix \<Rightarrow> real" where
  "det3 (a, b, c) = dot a (cross b c)"

definition is_rotation :: "RotationMatrix \<Rightarrow> bool" where
  "is_rotation R \<longleftrightarrow> orthonormal3 R \<and> orthonormal3 (transpose3 R) \<and> det3 R = 1"

text \<open>The vector \<open>v\<close> is an eigenvector of the tensor for the eigenvalue \<open>l\<close>.\<close>

definition eigenpair :: "RotationalInertia \<Rightarrow> real \<Rightarrow> Vector3d \<Rightarrow> bool" where
  "eigenpair I l v \<longleftrightarrow> times_vector (vec v) I = vec (scale_d l v)"

text \<open>
  Modelled from the spec: the body of \<open>CalcPrincipalMomentsAndMaybeAxesOfInertia\<close>, which
  \<open>CalcPrincipalMomentsAndAxesOfInertia\<close> and \<open>CalcPrincipalMomentsOfInertia\<close> call, is in
  \<open>rotational_inertia.cc\<close>, which is not among the sources, and it runs the eigen-solver of
  an external library. What is modelled is the result the spec and the header describe,
  as a relation between the tensor and a returned pair: the stored values are finite
  reals; the three principal moments are eigenvalues in ascending order; the columns of
  the rotation matrix are matching orthonormal eigenvectors forming a proper rotation;
  and when the three moments coincide the rotation is the identity.
\<close>

fun CalcPrincipalMomentsAndAxesOfInertia ::
  "RotationalInertia \<Rightarrow> Vector3d \<times> RotationMatrix \<Rightarrow> bool" where
  "CalcPrincipalMomentsAndAxesOfInertia I ((l1, l2, l3), (Ax, Ay, Az)) \<longleftrightarrow>
     IsFinite I \<and> l1 \<le> l2 \<and> l2 \<le> l3 \<and>
     is_rotation (Ax, Ay, Az) \<and>
     eigenpair I l1 Ax \<and> eigenpair I l2 Ay \<and> eigenpair I l3 Az \<and>
     (if l1 = l2 \<and> l2 = l3 then (Ax, Ay, Az) = Identity_rotation else True)"

text \<open>
  Modelled from the spec: \<open>CalcPrincipalMomentsOfInertia\<close> returns the moments of such a
  pair without the axes.
\<close>

definition CalcPrincipalMomentsOfInertia :: "RotationalInertia \<Rightarrow> Vector3d \<Rightarrow> bool" where
  "CalcPrincipalMomentsOfInertia I moments \<longleftrightarrow>
     (\<exists>R. CalcPrincipalMomentsAndAxesOfInertia I (moments, R))"

section \<open>Reference definitions and sample values\<close>

text \<open>
  The matrix of a freshly constructed object whose six stored values are the finite numbers
  given: the member initialiser leaves NaN above the diagonal.
\<close>

definition lower6 ::
  "real \<Rightarrow> real \<Rightarrow> real \<Rightarrow> real \<Rightarrow> real \<Rightarrow> real \<Rightarrow> RotationalInertia" where
  "lower6 Ixx Iyy Izz Ixy Ixz Iyz =
     \<lparr>m00 = Fin Ixx, m01 = NaN, m02 = NaN, m10 = Fin Ixy, m11 = Fin Iyy, m12 = NaN,
      m20 = Fin Ixz, m21 = Fin Iyz, m22 = Fin Izz\<rparr>"

text \<open>The matrix that the private constructor fills in, before its check.\<close>

definition mp_stored :: "Vector3 \<Rightarrow> Vector3 \<Rightarrow> RotationalInertia" where
  "mp_stored mp p =
     (case (mp, p) of ((mx, my, mz), (x, y, z)) \<Rightarrow>
        set_moments_and_products_no_validity_check
          (my * y + mz * z) (mx * x + mz * z) (mx * x + my * y)
          ((- mx) * y) ((- mx) * z) ((- my) * z)
          RotationalInertia_default)"

fun finite_v :: "Vector3 \<Rightarrow> bool" where
  "finite_v (x, y, z) \<longleftrightarrow> isfinite x \<and> isfinite y \<and> isfinite z"

text \<open>
  The spec's formula for the tensor of a point mass \<open>m\<close> at offset \<open>d\<close>, entry \<open>(i, j)\<close> of
  \<open>m (\<parallel>d\<parallel>\<^sup>2 Id - d d\<^sup>T)\<close>, and the matrix holding it in its lower triangle.
\<close>

fun spec_point_mass_entry :: "real \<Rightarrow> real \<times> real \<times> real \<Rightarrow> nat \<Rightarrow> nat \<Rightarrow> real" where
  "spec_point_mass_entry m (x, y, z) i j =
     (let d = (\<lambda>k. if k = 0 then x else if k = 1 then y else z);
          norm2 = x * x + y * y + z * z
      in m * (norm2 * (if i = j then 1 else 0) - d i * d j))"

definition point_mass_tensor :: "real \<Rightarrow> real \<times> real \<times> real \<Rightarrow> RotationalInertia" where
  "point_mass_tensor m d =
     lower6 (spec_point_mass_entry m d 0 0) (spec_point_mass_entry m d 1 1)
       (spec_point_mass_entry m d 2 2) (spec_point_mass_entry m d 1 0)
       (spec_point_mass_entry m d 2 0) (spec_point_mass_entry m d 2 1)"

text \<open>
  The spec's reading of \<open>IsNearlyEqualTo\<close>: the largest possible moment is half the trace.
\<close>

definition maxPossibleMoment_spec :: "RotationalInertia \<Rightarrow> scalar" where
  "maxPossibleMoment_spec I = Fin (1 / 2) * Trace I"

definition IsNearlyEqualTo_spec ::
  "RotationalInertia \<Rightarrow> real \<Rightarrow> RotationalInertia \<Rightarrow> bool" where
  "IsNearlyEqualTo_spec other relativePrecision I \<longleftrightarrow>
     IsApproxMomentsAndProducts other
       (Fin relativePrecision *
          std_min (maxPossibleMoment_spec I) (maxPossibleMoment_spec other)) I"

text \<open>
  The two public calls that the fused shift replaces:
  \<open>ShiftToCenterOfMassInPlace(mass, p)\<close> followed by \<open>ShiftFromCenterOfMassInPlace(mass, q)\<close>.
\<close>

definition shift_to_then_from ::
  "bool \<Rightarrow> real \<Rightarrow> scalar \<Rightarrow> Vector3 \<Rightarrow> Vector3 \<Rightarrow> RotationalInertia \<Rightarrow> in_place" where
  "shift_to_then_from armed prec mass p_PBcm_E p_QBcm_E I =
     and_then (ShiftToCenterOfMassInPlace armed prec mass p_PBcm_E I)
       (ShiftFromCenterOfMassInPlace armed prec mass p_QBcm_E)"

text \<open>The round trip \<open>I.ShiftToCenterOfMass(m, d).ShiftFromCenterOfMass(m, d)\<close>.\<close>

definition round_trip ::
  "bool \<Rightarrow> real \<Rightarrow> scalar \<Rightarrow> Vector3 \<Rightarrow> RotationalInertia \<Rightarrow> error + RotationalInertia" where
  "round_trip armed prec mass d I =
     (case ShiftToCenterOfMass armed prec mass d I of
        Inl e \<Rightarrow> Inl e
      | Inr J \<Rightarrow> ShiftFromCenterOfMass armed prec mass d J)"

text \<open>A sample tolerance factor for the closed examples.\<close>

definition example_prec :: real where
  "example_prec = 1 / 2 ^ 48"

text \<open>An outcome that is a thrown invalid-scale error.\<close>

fun throws_invalid_scale :: "error + RotationalInertia \<Rightarrow> bool" where
  "throws_invalid_scale (Inl e) = invalid_scale e"
| "throws_invalid_scale (Inr _) = False"

section \<open>Scalar arithmetic\<close>

lemma scalar_minus_minus: "- (- (a::scalar)) = a"
  by (cases a) auto

lemma scalar_mult_minus_right: "(a::scalar) * (- b) = - (a * b)"
  by (cases a; cases b) (auto simp: signed_inf_def)

lemma scalar_mult_minus_left: "(- (a::scalar)) * b = - (a * b)"
  by (cases a; cases b) (auto simp: signed_inf_def)

lemma scalar_le_zero_iff: "(s \<le> Fin 0) = (s = Fin 0 \<or> s < Fin 0)"
  by (cases s) auto

lemma isfiniteE: "isfinite x \<Longrightarrow> (\<And>a. x = Fin a \<Longrightarrow> P) \<Longrightarrow> P"
  by (cases x) auto

lemma finite_not_nan: "isfinite x \<Longrightarrow> \<not> isnan x"
  by (cases x) auto

text \<open>On finite scalars the operators are those of the reals.\<close>

lemma fin_plus: "isfinite x \<Longrightarrow> isfinite y \<Longrightarrow> x + y = Fin (val x + val y)"
  by (cases x; cases y) auto

lemma fin_minus: "isfinite x \<Longrightarrow> isfinite y \<Longrightarrow> x - y = Fin (val x - val y)"
  by (cases x; cases y) (auto simp: minus_scalar_def)

lemma fin_times: "isfinite x \<Longrightarrow> isfinite y \<Longrightarrow> x * y = Fin (val x * val y)"
  by (cases x; cases y) auto

lemma fin_abs: "isfinite x \<Longrightarrow> \<bar>x\<bar> = Fin \<bar>val x\<bar>"
  by (cases x) auto

lemma fin_std_max: "std_max (Fin a) (Fin b) = Fin (max a b)"
  by (simp add: std_max_def max_def)

lemma fin_std_min: "std_min (Fin a) (Fin b) = Fin (min a b)"
  by (auto simp add: std_min_def min_def)

lemma fin_le_left: "isfinite x \<Longrightarrow> x \<le> Fin b \<longleftrightarrow> val x \<le> b"
  by (cases x) auto

lemma fin_le_right: "isfinite x \<Longrightarrow> Fin a \<le> x \<longleftrightarrow> a \<le> val x"
  by (cases x) auto

lemmas fin_arith =
  fin_plus fin_minus fin_times fin_abs fin_std_max fin_std_min fin_le_left fin_le_right

lemma max3_le: "max (max (a::real) b) c \<le> t \<longleftrightarrow> a \<le> t \<and> b \<le> t \<and> c \<le> t"
  by auto

section \<open>Outcomes of the checks\<close>

lemma returning_Inr: "returning r = Inr J \<longleftrightarrow> r = (None, J)"
  by (cases r rule: returning.cases) auto

lemma valid_unfold:
  "CouldBePhysicallyValid prec I \<longleftrightarrow>
     \<not> IsNaN I \<and> AreMomentsOfInertiaNearPositiveAndSatisfyTriangleInequality prec I"
  by (simp add: CouldBePhysicallyValid_def CreateInvalidityReport_def)

lemma valid_no_throw:
  "CouldBePhysicallyValid prec I \<Longrightarrow>
     DRAKE_ASSERT_VOID armed (ThrowIfNotPhysicallyValid prec I) = None"
  by (simp add: CouldBePhysicallyValid_def ThrowIfNotPhysicallyValid_def DRAKE_ASSERT_VOID_def)

lemma invalid_throw:
  "\<not> CouldBePhysicallyValid prec I \<Longrightarrow>
     DRAKE_ASSERT_VOID True (ThrowIfNotPhysicallyValid prec I) = Some NotPhysicallyValid"
  by (auto simp: CouldBePhysicallyValid_def ThrowIfNotPhysicallyValid_def DRAKE_ASSERT_VOID_def
      split: option.splits)

lemma unarmed_no_throw: "DRAKE_ASSERT_VOID False t = None"
  by (simp add: DRAKE_ASSERT_VOID_def)

lemma valid_finite:
  assumes "IsFinite I"
  shows "CouldBePhysicallyValid prec I \<longleftrightarrow>
     (let a = val (m00 I); b = val (m11 I); c = val (m22 I);
          e = prec * (1 / 2 * \<bar>a + b + c\<bar>)
      in 0 \<le> a + e \<and> 0 \<le> b + e \<and> 0 \<le> c + e \<and>
         c \<le> a + b + e \<and> b \<le> a + c + e \<and> a \<le> b + c + e)"
proof -
  from assms have f: "isfinite (m00 I)" "isfinite (m10 I)" "isfinite (m11 I)"
    "isfinite (m20 I)" "isfinite (m21 I)" "isfinite (m22 I)"
    by (simp_all add: IsFinite_def)
  have n: "\<not> IsNaN I"
    using f by (simp add: IsNaN_def finite_not_nan)
  show ?thesis
    using f n
    by (simp add: valid_unfold AreMomentsOfInertiaNearPositiveAndSatisfyTriangleInequality_def
        AreMomentsOfInertiaNearPositive_def CalcMaximumPossibleMomentOfInertia_def Trace_def
        fin_arith Let_def)
qed

lemma valid_nonneg_triangle:
  assumes "0 \<le> prec" "IsFinite I"
    "0 \<le> val (m00 I)" "0 \<le> val (m11 I)" "0 \<le> val (m22 I)"
    "val (m22 I) \<le> val (m00 I) + val (m11 I)"
    "val (m11 I) \<le> val (m00 I) + val (m22 I)"
    "val (m00 I) \<le> val (m11 I) + val (m22 I)"
  shows "CouldBePhysicallyValid prec I"
proof -
  define e where "e = prec * (1 / 2 * \<bar>val (m00 I) + val (m11 I) + val (m22 I)\<bar>)"
  have "0 \<le> e"
    unfolding e_def using assms(1) by simp
  with assms(3-) show ?thesis
    unfolding valid_finite [OF assms(2)] Let_def e_def [symmetric] by linarith
qed

text \<open>
  A tensor whose trace is zero and which has a negative moment fails the check whatever the
  tolerance factor, since the tolerance is proportional to the trace.
\<close>

lemma invalid_2_m1_m1: "\<not> CouldBePhysicallyValid prec (lower6 2 (- 1) (- 1) 0 0 0)"
  by (simp add: valid_finite IsFinite_def lower6_def)

lemma valid_2_1_1: "0 \<le> prec \<Longrightarrow> CouldBePhysicallyValid prec (lower6 2 1 1 0 0 0)"
  by (rule valid_nonneg_triangle) (simp_all add: IsFinite_def lower6_def)

lemma stored_lower6:
  "set_moments_and_products_no_validity_check (Fin a) (Fin b) (Fin c) (Fin d) (Fin e) (Fin f)
     RotationalInertia_default = lower6 a b c d e f"
  by (simp add: set_moments_and_products_no_validity_check_def RotationalInertia_default_def
      Matrix3_Constant_def lower6_def)

section \<open>The point-mass tensor\<close>

lemma mp_Inr: "RotationalInertia_mp armed prec mp p = Inr U \<Longrightarrow> U = mp_stored mp p"
  by (cases mp; cases p) (auto simp: mp_stored_def Let_def split: option.splits)

lemma mp_unarmed: "RotationalInertia_mp False prec mp p = Inr (mp_stored mp p)"
  by (cases mp; cases p) (simp add: mp_stored_def Let_def unarmed_no_throw)

lemma mp_valid:
  "CouldBePhysicallyValid prec (mp_stored mp p) \<Longrightarrow>
     RotationalInertia_mp armed prec mp p = Inr (mp_stored mp p)"
  by (cases mp; cases p) (simp add: mp_stored_def Let_def valid_no_throw)

lemma mp_stored_finite: "finite_v mp \<Longrightarrow> finite_v p \<Longrightarrow> IsFinite (mp_stored mp p)"
  by (cases mp; cases p)
    (auto simp: mp_stored_def IsFinite_def set_moments_and_products_no_validity_check_def
      elim!: isfiniteE)

lemma scale_v_finite: "isfinite m \<Longrightarrow> finite_v p \<Longrightarrow> finite_v (scale_v m p)"
  by (cases p) (auto elim!: isfiniteE)

lemma mp_neg:
  "RotationalInertia_mp armed prec (scale_v m (neg_v d)) (neg_v d) =
     RotationalInertia_mp armed prec (scale_v m d) d"
  by (cases d) (simp add: scalar_minus_minus scalar_mult_minus_right scalar_mult_minus_left)

lemma mp_unit_neg:
  "RotationalInertia_mp armed prec (neg_v d) (neg_v d) = RotationalInertia_mp armed prec d d"
  by (cases d) (simp add: scalar_minus_minus scalar_mult_minus_right scalar_mult_minus_left)

lemma point_mass_stored:
  "mp_stored (scale_v (Fin m) (Fin x, Fin y, Fin z)) (Fin x, Fin y, Fin z) =
     point_mass_tensor m (x, y, z)"
  by (simp add: mp_stored_def set_moments_and_products_no_validity_check_def
      RotationalInertia_default_def Matrix3_Constant_def point_mass_tensor_def lower6_def
      algebra_simps)

lemma point_mass_valid:
  assumes "0 \<le> prec" "0 \<le> m"
  shows "CouldBePhysicallyValid prec (point_mass_tensor m (x, y, z))"
proof (rule valid_nonneg_triangle)
  have xx: "0 \<le> m * (x * x)" and yy: "0 \<le> m * (y * y)" and zz: "0 \<le> m * (z * z)"
    using assms(2) by simp_all
  show "0 \<le> prec" by fact
  show "IsFinite (point_mass_tensor m (x, y, z))"
    by (simp add: IsFinite_def point_mass_tensor_def lower6_def)
  show "0 \<le> val (m00 (point_mass_tensor m (x, y, z)))"
    using yy zz by (simp add: point_mass_tensor_def lower6_def algebra_simps)
  show "0 \<le> val (m11 (point_mass_tensor m (x, y, z)))"
    using xx zz by (simp add: point_mass_tensor_def lower6_def algebra_simps)
  show "0 \<le> val (m22 (point_mass_tensor m (x, y, z)))"
    using xx yy by (simp add: point_mass_tensor_def lower6_def algebra_simps)
  show "val (m22 (point_mass_tensor m (x, y, z)))
      \<le> val (m00 (point_mass_tensor m (x, y, z))) + val (m11 (point_mass_tensor m (x, y, z)))"
    using zz by (simp add: point_mass_tensor_def lower6_def algebra_simps)
  show "val (m11 (point_mass_tensor m (x, y, z)))
      \<le> val (m00 (point_mass_tensor m (x, y, z))) + val (m22 (point_mass_tensor m (x, y, z)))"
    using yy by (simp add: point_mass_tensor_def lower6_def algebra_simps)
  show "val (m00 (point_mass_tensor m (x, y, z)))
      \<le> val (m11 (point_mass_tensor m (x, y, z))) + val (m22 (point_mass_tensor m (x, y, z)))"
    using xx by (simp add: point_mass_tensor_def lower6_def algebra_simps)
qed

lemma point_unarmed:
  "RotationalInertia_point False prec (Fin m) (Fin x, Fin y, Fin z) =
     Inr (point_mass_tensor m (x, y, z))"
  unfolding RotationalInertia_point_def mp_unarmed point_mass_stored ..

lemma point_nonneg_mass:
  assumes "0 \<le> prec" "0 \<le> m"
  shows "RotationalInertia_point armed prec (Fin m) (Fin x, Fin y, Fin z) =
     Inr (point_mass_tensor m (x, y, z))"
proof -
  have "CouldBePhysicallyValid prec
      (mp_stored (scale_v (Fin m) (Fin x, Fin y, Fin z)) (Fin x, Fin y, Fin z))"
    unfolding point_mass_stored using assms by (rule point_mass_valid)
  then show ?thesis
    unfolding RotationalInertia_point_def by (simp only: mp_valid point_mass_stored)
qed

section \<open>Shifts on finite values\<close>

lemma plus_minus_cancel:
  "IsFinite I \<Longrightarrow> IsFinite B \<Longrightarrow> plus_eq B (MinusEqualsUnchecked B I) = I"
  by (cases I; cases B)
    (auto simp: IsFinite_def plus_eq_def MinusEqualsUnchecked_def minus_scalar_def
      elim!: isfiniteE)

lemma shift_to_Inr:
  assumes "ShiftToCenterOfMass armed prec m d I = Inr J"
  shows "J = MinusEqualsUnchecked (mp_stored (scale_v m d) d) I
     \<and> RotationalInertia_point armed prec m d = Inr (mp_stored (scale_v m d) d)"
  using assms
  by (auto simp: ShiftToCenterOfMass_def ShiftToCenterOfMassInPlace_def minus_eq_def Let_def
      RotationalInertia_point_def returning_Inr dest: mp_Inr split: sum.splits)

lemma shift_to_unarmed:
  "ShiftToCenterOfMass False prec m d I =
     Inr (MinusEqualsUnchecked (mp_stored (scale_v m d) d) I)"
  by (simp add: ShiftToCenterOfMass_def ShiftToCenterOfMassInPlace_def minus_eq_def Let_def
      RotationalInertia_point_def mp_unarmed unarmed_no_throw)

lemma shift_back:
  assumes "IsFinite I" "isfinite m" "finite_v d"
    and "ShiftToCenterOfMass armed prec m d I = Inr J"
  shows "ShiftFromCenterOfMass armed prec m d J = Inr I"
proof -
  let ?pm = "mp_stored (scale_v m d) d"
  from shift_to_Inr [OF assms(4)]
  have J: "J = MinusEqualsUnchecked ?pm I"
    and pm: "RotationalInertia_point armed prec m d = Inr ?pm"
    by simp_all
  have "IsFinite ?pm"
    using assms(2,3) by (simp add: mp_stored_finite scale_v_finite)
  then have "plus_eq ?pm J = I"
    unfolding J using assms(1) by (simp add: plus_minus_cancel)
  then show ?thesis
    by (simp add: ShiftFromCenterOfMass_def ShiftFromCenterOfMassInPlace_def pm)
qed

lemma fused_not_raising:
  assumes "fst (ShiftToThenAwayFromCenterOfMassInPlace armed prec m p q I) = None"
  shows "snd (ShiftToThenAwayFromCenterOfMassInPlace armed prec m p q I) =
     plus_eq (scale_lower m (MinusEqualsUnchecked (mp_stored p p) (mp_stored q q))) I"
  using assms
  by (auto simp: ShiftToThenAwayFromCenterOfMassInPlace_def
      ShiftUnitMassBodyToThenAwayFromCenterOfMass_def times_op_def times_eq_def
      dest!: mp_Inr split: sum.splits option.splits)

lemma fused_unarmed:
  "ShiftToThenAwayFromCenterOfMassInPlace False prec m p q I =
     (None, plus_eq (scale_lower m (MinusEqualsUnchecked (mp_stored p p) (mp_stored q q))) I)"
  by (simp add: ShiftToThenAwayFromCenterOfMassInPlace_def
      ShiftUnitMassBodyToThenAwayFromCenterOfMass_def times_op_def times_eq_def mp_unarmed
      unarmed_no_throw)

lemma two_calls_not_raising:
  assumes "fst (shift_to_then_from armed prec m p q I) = None"
  shows "snd (shift_to_then_from armed prec m p q I) =
     plus_eq (mp_stored (scale_v m q) q) (MinusEqualsUnchecked (mp_stored (scale_v m p) p) I)"
  using assms
  by (auto simp: shift_to_then_from_def and_then_def ShiftToCenterOfMassInPlace_def
      ShiftFromCenterOfMassInPlace_def minus_eq_def Let_def RotationalInertia_point_def
      dest!: mp_Inr split: sum.splits option.splits prod.splits)

lemma two_calls_unarmed:
  "shift_to_then_from False prec m p q I =
     (None,
      plus_eq (mp_stored (scale_v m q) q) (MinusEqualsUnchecked (mp_stored (scale_v m p) p) I))"
  by (simp add: shift_to_then_from_def and_then_def ShiftToCenterOfMassInPlace_def
      ShiftFromCenterOfMassInPlace_def minus_eq_def Let_def RotationalInertia_point_def
      mp_unarmed unarmed_no_throw)

lemma fused_algebra:
  assumes "IsFinite I" "isfinite m" "finite_v p" "finite_v q"
  shows "plus_eq (scale_lower m (MinusEqualsUnchecked (mp_stored p p) (mp_stored q q))) I =
     plus_eq (mp_stored (scale_v m q) q) (MinusEqualsUnchecked (mp_stored (scale_v m p) p) I)"
  using assms
  by (cases I; cases p; cases q)
    (auto simp: IsFinite_def plus_eq_def MinusEqualsUnchecked_def minus_scalar_def
      scale_lower_def mp_stored_def set_moments_and_products_no_validity_check_def
      RotationalInertia_default_def Matrix3_Constant_def algebra_simps
      elim!: isfiniteE)

section \<open>Comparison on finite values\<close>

lemma max_moment_finite:
  "IsFinite I \<Longrightarrow>
     CalcMaximumPossibleMomentOfInertia I =
       Fin (1 / 2 * \<bar>val (m00 I) + val (m11 I) + val (m22 I)\<bar>)"
  by (simp add: IsFinite_def CalcMaximumPossibleMomentOfInertia_def Trace_def fin_arith)

lemma max_moment_nonneg_trace:
  "Fin 0 \<le> Trace I \<Longrightarrow> CalcMaximumPossibleMomentOfInertia I = maxPossibleMoment_spec I"
  by (cases "Trace I")
    (auto simp: CalcMaximumPossibleMomentOfInertia_def maxPossibleMoment_spec_def)

lemma approx_finite:
  assumes "IsFinite A" "IsFinite B"
  shows "IsApproxMomentsAndProducts B (Fin tol) A \<longleftrightarrow>
     \<bar>val (m00 A) - val (m00 B)\<bar> \<le> tol \<and> \<bar>val (m11 A) - val (m11 B)\<bar> \<le> tol \<and>
     \<bar>val (m22 A) - val (m22 B)\<bar> \<le> tol \<and> \<bar>val (m10 A) - val (m10 B)\<bar> \<le> tol \<and>
     \<bar>val (m20 A) - val (m20 B)\<bar> \<le> tol \<and> \<bar>val (m21 A) - val (m21 B)\<bar> \<le> tol"
  using assms
  by (simp add: IsFinite_def IsApproxMomentsAndProducts_def get_moments_def get_products_def
      fin_arith max3_le Let_def conj_ac)

section \<open>Eigenvalues and the trace\<close>

lemma eigenpair_real:
  assumes "IsFinite I"
  shows "eigenpair I l (x1, x2, x3) \<longleftrightarrow>
     val (m00 I) * x1 + val (m10 I) * x2 + val (m20 I) * x3 = l * x1 \<and>
     val (m10 I) * x1 + val (m11 I) * x2 + val (m21 I) * x3 = l * x2 \<and>
     val (m20 I) * x1 + val (m21 I) * x2 + val (m22 I) * x3 = l * x3"
  using assms by (simp add: eigenpair_def IsFinite_def fin_arith Let_def)

lemma eigenvalue_quadratic_form:
  fixes a b c d e f l x1 x2 x3 :: real
  assumes "a * x1 + b * x2 + c * x3 = l * x1"
    "b * x1 + d * x2 + e * x3 = l * x2"
    "c * x1 + e * x2 + f * x3 = l * x3"
    "x1 * x1 + x2 * x2 + x3 * x3 = 1"
  shows "l = a * (x1 * x1) + d * (x2 * x2) + f * (x3 * x3)
           + 2 * b * (x1 * x2) + 2 * c * (x1 * x3) + 2 * e * (x2 * x3)"
proof -
  have "l = l * (x1 * x1 + x2 * x2 + x3 * x3)"
    using assms(4) by simp
  also have "\<dots> = x1 * (l * x1) + x2 * (l * x2) + x3 * (l * x3)"
    by (simp add: algebra_simps)
  also have "\<dots> = x1 * (a * x1 + b * x2 + c * x3) + x2 * (b * x1 + d * x2 + e * x3)
      + x3 * (c * x1 + e * x2 + f * x3)"
    by (simp only: assms(1-3))
  also have "\<dots> = a * (x1 * x1) + d * (x2 * x2) + f * (x3 * x3)
           + 2 * b * (x1 * x2) + 2 * c * (x1 * x3) + 2 * e * (x2 * x3)"
    by (simp add: algebra_simps)
  finally show ?thesis .
qed

lemma principal_moments_sum:
  assumes "CalcPrincipalMomentsAndAxesOfInertia I ((l1, l2, l3), R)"
  shows "l1 + l2 + l3 = val (m00 I) + val (m11 I) + val (m22 I)"
proof -
  obtain x1 x2 x3 y1 y2 y3 z1 z2 z3
    where R: "R = ((x1, x2, x3), (y1, y2, y3), (z1, z2, z3))"
    by (metis prod_cases3)
  let ?a = "val (m00 I)" and ?b = "val (m10 I)" and ?c = "val (m20 I)"
  let ?d = "val (m11 I)" and ?e = "val (m21 I)" and ?f = "val (m22 I)"
  from assms have fin: "IsFinite I" and rot: "is_rotation R"
    and ex: "eigenpair I l1 (x1, x2, x3)" and ey: "eigenpair I l2 (y1, y2, y3)"
    and ez: "eigenpair I l3 (z1, z2, z3)"
    by (simp_all add: R)
  from rot have cols: "x1 * x1 + x2 * x2 + x3 * x3 = 1" "y1 * y1 + y2 * y2 + y3 * y3 = 1"
      "z1 * z1 + z2 * z2 + z3 * z3 = 1"
    and rows: "x1 * x1 + y1 * y1 + z1 * z1 = 1" "x2 * x2 + y2 * y2 + z2 * z2 = 1"
      "x3 * x3 + y3 * y3 + z3 * z3 = 1" "x1 * x2 + y1 * y2 + z1 * z2 = 0"
      "x1 * x3 + y1 * y3 + z1 * z3 = 0" "x2 * x3 + y2 * y3 + z2 * z3 = 0"
    by (simp_all add: is_rotation_def R)
  from ex have qx: "l1 = ?a * (x1 * x1) + ?d * (x2 * x2) + ?f * (x3 * x3)
           + 2 * ?b * (x1 * x2) + 2 * ?c * (x1 * x3) + 2 * ?e * (x2 * x3)"
    unfolding eigenpair_real [OF fin] using cols(1)
    by (elim conjE) (rule eigenvalue_quadratic_form)
  from ey have qy: "l2 = ?a * (y1 * y1) + ?d * (y2 * y2) + ?f * (y3 * y3)
           + 2 * ?b * (y1 * y2) + 2 * ?c * (y1 * y3) + 2 * ?e * (y2 * y3)"
    unfolding eigenpair_real [OF fin] using cols(2)
    by (elim conjE) (rule eigenvalue_quadratic_form)
  from ez have qz: "l3 = ?a * (z1 * z1) + ?d * (z2 * z2) + ?f * (z3 * z3)
           + 2 * ?b * (z1 * z2) + 2 * ?c * (z1 * z3) + 2 * ?e * (z2 * z3)"
    unfolding eigenpair_real [OF fin] using cols(3)
    by (elim conjE) (rule eigenvalue_quadratic_form)
  have "l1 + l2 + l3 =
      ?a * (x1 * x1 + y1 * y1 + z1 * z1) + ?d * (x2 * x2 + y2 * y2 + z2 * z2)
      + ?f * (x3 * x3 + y3 * y3 + z3 * z3) + 2 * ?b * (x1 * x2 + y1 * y2 + z1 * z2)
      + 2 * ?c * (x1 * x3 + y1 * y3 + z1 * z3) + 2 * ?e * (x2 * x3 + y2 * y3 + z2 * z3)"
    by (subst qx, subst qy, subst qz) (simp add: algebra_simps)
  also have "\<dots> = ?a + ?d + ?f"
    by (simp add: rows)
  finally show ?thesis .
qed

lemma triaxial_eigenvalue:
  assumes "eigenpair (lower6 d d d 0 0 0) l (x1, x2, x3)"
    "x1 * x1 + x2 * x2 + x3 * x3 = 1"
  shows "l = d"
proof -
  have fin: "IsFinite (lower6 d d d 0 0 0)"
    by (simp add: IsFinite_def lower6_def)
  from assms(1) have "d * x1 = l * x1" "d * x2 = l * x2" "d * x3 = l * x3"
    unfolding eigenpair_real [OF fin] by (simp_all add: lower6_def)
  then have z: "l \<noteq> d \<Longrightarrow> x1 = 0 \<and> x2 = 0 \<and> x3 = 0"
    by auto
  show ?thesis
  proof (rule ccontr)
    assume "l \<noteq> d"
    with z assms(2) show False
      by simp
  qed
qed

lemma triaxial_principal:
  "CalcPrincipalMomentsAndAxesOfInertia (lower6 d d d 0 0 0) res \<longleftrightarrow> res = ((d, d, d), Identity_rotation)"
proof
  assume h: "CalcPrincipalMomentsAndAxesOfInertia (lower6 d d d 0 0 0) res"
  obtain l1 l2 l3 x1 x2 x3 y1 y2 y3 z1 z2 z3
    where res: "res = ((l1, l2, l3), ((x1, x2, x3), (y1, y2, y3), (z1, z2, z3)))"
    by (metis prod_cases3)
  from h have rot: "is_rotation ((x1, x2, x3), (y1, y2, y3), (z1, z2, z3))"
    and ex: "eigenpair (lower6 d d d 0 0 0) l1 (x1, x2, x3)"
    and ey: "eigenpair (lower6 d d d 0 0 0) l2 (y1, y2, y3)"
    and ez: "eigenpair (lower6 d d d 0 0 0) l3 (z1, z2, z3)"
    by (simp_all add: res)
  from rot have cols: "x1 * x1 + x2 * x2 + x3 * x3 = 1" "y1 * y1 + y2 * y2 + y3 * y3 = 1"
      "z1 * z1 + z2 * z2 + z3 * z3 = 1"
    by (simp_all add: is_rotation_def)
  have l: "l1 = d" "l2 = d" "l3 = d"
    using triaxial_eigenvalue [OF ex cols(1)] triaxial_eigenvalue [OF ey cols(2)]
      triaxial_eigenvalue [OF ez cols(3)] by simp_all
  with h show "res = ((d, d, d), Identity_rotation)"
    by (simp add: res)
next
  assume "res = ((d, d, d), Identity_rotation)"
  then show "CalcPrincipalMomentsAndAxesOfInertia (lower6 d d d 0 0 0) res"
    by (simp add: Identity_rotation_def is_rotation_def eigenpair_def IsFinite_def lower6_def
        Let_def)
qed

section \<open>Closed examples\<close>

lemma example_prec_nonneg: "0 \<le> example_prec"
  by (simp add: example_prec_def)

lemma unit_tensor:
  assumes "0 \<le> prec"
  shows "RotationalInertia_mp armed prec (Fin x, Fin y, Fin z) (Fin x, Fin y, Fin z) =
     Inr (point_mass_tensor 1 (x, y, z))"
  using point_nonneg_mass [OF assms, of 1 armed x y z]
  by (simp add: RotationalInertia_point_def)

lemma point_mass_2_at_100: "point_mass_tensor 2 (1, 0, 0) = lower6 0 2 2 0 0 0"
  by (simp add: point_mass_tensor_def)

lemma point_mass_2_at_110: "point_mass_tensor 2 (1, 1, 0) = lower6 2 2 4 (- 2) 0 0"
  by (simp add: point_mass_tensor_def)

lemma point_mass_1_at_100: "point_mass_tensor 1 (1, 0, 0) = lower6 0 1 1 0 0 0"
  by (simp add: point_mass_tensor_def)

lemma minus_lower6:
  "MinusEqualsUnchecked (lower6 a b c d e f) (lower6 a' b' c' d' e' f') =
     lower6 (a' - a) (b' - b) (c' - c) (d' - d) (e' - e) (f' - f)"
  by (simp add: MinusEqualsUnchecked_def lower6_def minus_scalar_def)

lemma plus_lower6:
  "plus_eq (lower6 a b c d e f) (lower6 a' b' c' d' e' f') =
     lower6 (a' + a) (b' + b) (c' + c) (d' + d) (e' + e) (f' + f)"
  by (simp add: plus_eq_def lower6_def)

lemma scale_lower6:
  "scale_lower (Fin s) (lower6 a b c d e f) =
     lower6 (a * s) (b * s) (c * s) (d * s) (e * s) (f * s)"
  by (simp add: scale_lower_def lower6_def)

lemma minus_eq_2_1_1:
  "minus_eq True prec (lower6 0 2 2 0 0 0) (lower6 2 1 1 0 0 0) =
     (Some NotPhysicallyValid, lower6 2 (- 1) (- 1) 0 0 0)"
  by (simp add: minus_eq_def minus_lower6 invalid_throw invalid_2_m1_m1)

lemma shift_to_2_1_1:
  assumes "0 \<le> prec"
  shows "ShiftToCenterOfMassInPlace True prec (Fin 2) (Fin 1, Fin 0, Fin 0) (lower6 2 1 1 0 0 0) =
     (Some NotPhysicallyValid, lower6 2 (- 1) (- 1) 0 0 0)"
  using assms
  by (simp add: ShiftToCenterOfMassInPlace_def point_nonneg_mass point_mass_2_at_100
      minus_eq_2_1_1)

lemma fused_2_1_1:
  assumes "0 \<le> prec"
  shows "ShiftToThenAwayFromCenterOfMassInPlace True prec (Fin 2) (Fin 1, Fin 0, Fin 0)
       (Fin 1, Fin 0, Fin 0) (lower6 2 1 1 0 0 0) = (None, lower6 2 1 1 0 0 0)"
  using assms
  by (simp add: ShiftToThenAwayFromCenterOfMassInPlace_def
      ShiftUnitMassBodyToThenAwayFromCenterOfMass_def unit_tensor point_mass_1_at_100
      minus_lower6 times_op_def times_eq_def DRAKE_ASSERT_VOID_def
      ThrowIfMultiplyByNegativeScalar_def scale_lower6 plus_lower6
      del: RotationalInertia_mp.simps)

text \<open>
  The fused shift does not check the sum it leaves in the receiver: shifting the zero
  tensor of a unit mass from an about-point one unit away from the centre of mass to the
  centre of mass itself returns negative moments, in a build with assertions armed too.
\<close>

lemma fused_shift_sum_unchecked:
  assumes "0 \<le> prec" "prec < 1"
  shows "ShiftToThenAwayFromCenterOfMass True prec (Fin 1) (Fin 1, Fin 0, Fin 0)
       (Fin 0, Fin 0, Fin 0) (lower6 0 0 0 0 0 0) = Inr (lower6 0 (- 1) (- 1) 0 0 0)
     \<and> \<not> CouldBePhysicallyValid prec (lower6 0 (- 1) (- 1) 0 0 0)"
proof
  have z: "point_mass_tensor 1 (0, 0, 0) = lower6 0 0 0 0 0 0"
    by (simp add: point_mass_tensor_def)
  show "ShiftToThenAwayFromCenterOfMass True prec (Fin 1) (Fin 1, Fin 0, Fin 0)
       (Fin 0, Fin 0, Fin 0) (lower6 0 0 0 0 0 0) = Inr (lower6 0 (- 1) (- 1) 0 0 0)"
    using assms(1)
    by (simp add: ShiftToThenAwayFromCenterOfMass_def ShiftToThenAwayFromCenterOfMassInPlace_def
        ShiftUnitMassBodyToThenAwayFromCenterOfMass_def unit_tensor point_mass_1_at_100 z
        minus_lower6 times_op_def times_eq_def DRAKE_ASSERT_VOID_def
        ThrowIfMultiplyByNegativeScalar_def scale_lower6 plus_lower6
      del: RotationalInertia_mp.simps)
  show "\<not> CouldBePhysicallyValid prec (lower6 0 (- 1) (- 1) 0 0 0)"
    using assms by (simp add: valid_finite IsFinite_def lower6_def)
qed

lemma shift_to_2_3_3:
  assumes "0 \<le> prec"
  shows "ShiftToCenterOfMassInPlace True prec (Fin 2) (Fin 1, Fin 0, Fin 0) (lower6 2 3 3 0 0 0) =
     (None, lower6 2 1 1 0 0 0)"
  using assms
  by (simp add: ShiftToCenterOfMassInPlace_def point_nonneg_mass point_mass_2_at_100
      minus_eq_def minus_lower6 valid_no_throw valid_2_1_1)

lemma point_mass_2_at_010: "point_mass_tensor 2 (0, 1, 0) = lower6 2 0 2 0 0 0"
  by (simp add: point_mass_tensor_def)

lemma point_mass_1_at_010: "point_mass_tensor 1 (0, 1, 0) = lower6 1 0 1 0 0 0"
  by (simp add: point_mass_tensor_def)

lemma shift_from_2_1_1_along_y:
  assumes "0 \<le> prec"
  shows "ShiftFromCenterOfMassInPlace True prec (Fin 2) (Fin 0, Fin 1, Fin 0)
       (lower6 2 1 1 0 0 0) = (None, lower6 4 1 3 0 0 0)"
  using assms
  by (simp add: ShiftFromCenterOfMassInPlace_def point_nonneg_mass point_mass_2_at_010
      plus_lower6)

lemma fused_2_3_3:
  assumes "0 \<le> prec"
  shows "ShiftToThenAwayFromCenterOfMassInPlace True prec (Fin 2) (Fin 1, Fin 0, Fin 0)
       (Fin 0, Fin 1, Fin 0) (lower6 2 3 3 0 0 0) = (None, lower6 4 1 3 0 0 0)"
  using assms
  by (simp add: ShiftToThenAwayFromCenterOfMassInPlace_def
      ShiftUnitMassBodyToThenAwayFromCenterOfMass_def unit_tensor point_mass_1_at_100
      point_mass_1_at_010 minus_lower6 times_op_def times_eq_def DRAKE_ASSERT_VOID_def
      ThrowIfMultiplyByNegativeScalar_def scale_lower6 plus_lower6
      del: RotationalInertia_mp.simps)

text \<open>With assertions compiled out neither scaling operator throws.\<close>

lemma scale_unarmed_never_raises:
  "times_eq False s I = (None, scale_lower s I)
   \<and> divide_eq False s I = (None, scale_lower (Fin 1 / s) I)"
  by (simp add: times_eq_def divide_eq_def unarmed_no_throw)

section \<open>The scaling operators in both builds\<close>

lemma times_eq_total: "times_eq armed s I =
     (if armed \<and> s < Fin 0 then (Some MultiplyByNegativeScalar, I)
      else (None, scale_lower s I))"
  by (simp add: times_eq_def DRAKE_ASSERT_VOID_def ThrowIfMultiplyByNegativeScalar_def)

lemma divide_eq_total: "divide_eq armed s I =
       (if armed \<and> s = Fin 0 then (Some DivideByZero, I)
        else if armed \<and> s < Fin 0 then (Some DivideByNegativeScalar, I)
        else (None, scale_lower (Fin 1 / s) I))"
  by (simp add: divide_eq_def DRAKE_ASSERT_VOID_def ThrowIfDivideByZeroOrNegativeScalar_def
      Let_def)

lemma fin_reciprocal: "0 < r \<Longrightarrow> Fin 1 / Fin r = Fin (1 / r)"
  by simp

lemma times_eq_throws_iff:
  "throws_invalid_scale (returning (times_eq armed s I)) \<longleftrightarrow> armed \<and> s < Fin 0"
  by (simp add: times_eq_total)

lemma divide_eq_throws_iff:
  "throws_invalid_scale (returning (divide_eq armed s I)) \<longleftrightarrow> armed \<and> s \<le> Fin 0"
  by (auto simp add: divide_eq_total scalar_le_zero_iff)

lemma times_op_result: "times_op armed s I = Inr K \<longrightarrow> K = scale_lower s I"
  by (auto simp add: times_op_def times_eq_total split: if_splits)

lemma divide_op_result: "divide_op armed s I = Inr K \<longrightarrow> K = scale_lower (Fin 1 / s) I"
  by (auto simp add: divide_op_def divide_eq_total split: if_splits)

lemma times_op_finite: "0 \<le> r \<longrightarrow>
        times_op armed (Fin r) (lower6 a b c d e f) =
          Inr (lower6 (a * r) (b * r) (c * r) (d * r) (e * r) (f * r))"
  by (simp add: times_op_def times_eq_total scale_lower6)

lemma divide_op_finite: "0 < r \<longrightarrow>
        divide_op armed (Fin r) (lower6 a b c d e f) =
          Inr (lower6 (a * (1 / r)) (b * (1 / r)) (c * (1 / r))
                 (d * (1 / r)) (e * (1 / r)) (f * (1 / r)))"
proof
  assume p: "0 < r"
  then have z: "Fin r \<noteq> Fin 0" "\<not> Fin r < Fin 0"
  by simp_all
  have "divide_eq armed (Fin r) (lower6 a b c d e f) =
        (None, scale_lower (Fin 1 / Fin r) (lower6 a b c d e f))"
  by (simp only: divide_eq_total z simp_thms if_False)
  then show "divide_op armed (Fin r) (lower6 a b c d e f) =
          Inr (lower6 (a * (1 / r)) (b * (1 / r)) (c * (1 / r))
                 (d * (1 / r)) (e * (1 / r)) (f * (1 / r)))"
  by (simp only: divide_op_def returning.simps fin_reciprocal [OF p] scale_lower6)
qed

lemma times_op_total: "times_op armed s I =
       (if armed \<and> s < Fin 0 then Inl MultiplyByNegativeScalar else Inr (scale_lower s I))"
  by (simp add: times_op_def times_eq_total)

lemma divide_op_total: "divide_op armed s I =
       (if armed \<and> s = Fin 0 then Inl DivideByZero
        else if armed \<and> s < Fin 0 then Inl DivideByNegativeScalar
        else Inr (scale_lower (Fin 1 / s) I))"
  by (simp add: divide_op_def divide_eq_total)

lemma times_op_throws_iff:
  "throws_invalid_scale (times_op armed s I) \<longleftrightarrow> armed \<and> s < Fin 0"
  unfolding times_op_def by (rule times_eq_throws_iff)

lemma divide_op_throws_iff:
  "throws_invalid_scale (divide_op armed s I) \<longleftrightarrow> armed \<and> s \<le> Fin 0"
  unfolding divide_op_def by (rule divide_eq_throws_iff)

lemma scale_lower_entries:
  "get_moments (scale_lower k I) = (m00 I * k, m11 I * k, m22 I * k)"
  "get_products (scale_lower k I) = (m10 I * k, m20 I * k, m21 I * k)"
  "upper (scale_lower k I) = upper I"
  by (simp_all add: get_moments_def get_products_def upper_def scale_lower_def)

text \<open>
  The header's documentation of \<open>CouldBePhysicallyValid\<close> names the principal moments
  next to Ixx, Iyy, Izz among the tested quantities; the spec, and the check modelled from
  it, test the diagonal moments only. The two differ when the products are large: the
  tensor with moments (39, 11, 50) and Ixy = -48 passes the test of the diagonal moments
  for every tolerance factor, and its smallest principal moment is -25.
\<close>

lemma diagonal_test_and_principal_moments:
  assumes "0 \<le> prec"
  shows "CouldBePhysicallyValid prec (lower6 39 11 50 (- 48) 0 0)
     \<and> CalcPrincipalMomentsAndAxesOfInertia (lower6 39 11 50 (- 48) 0 0)
         ((- 25, 50, 75), ((3 / 5, 4 / 5, 0), (0, 0, - 1), (- 4 / 5, 3 / 5, 0)))"
proof
  show "CouldBePhysicallyValid prec (lower6 39 11 50 (- 48) 0 0)"
    using assms by (intro valid_nonneg_triangle) (simp_all add: IsFinite_def lower6_def)
  show "CalcPrincipalMomentsAndAxesOfInertia (lower6 39 11 50 (- 48) 0 0)
         ((- 25, 50, 75), ((3 / 5, 4 / 5, 0), (0, 0, - 1), (- 4 / 5, 3 / 5, 0)))"
    by (simp add: is_rotation_def eigenpair_def IsFinite_def lower6_def Let_def)
qed

section \<open>Claims: validity\<close>

text \<open>
  Claim C1. \<open>CouldBePhysicallyValid\<close> is true exactly when no stored value is NaN, every
  moment is at least \<open>-\<epsilon>\<close> and the three triangle inequalities hold within \<open>\<epsilon>\<close>, where \<open>\<epsilon>\<close>
  is the tolerance factor times the largest possible moment. On finite stored values these
  are the inequalities of the reals. In particular a triple of non-negative diagonal
  values that satisfies the triangle inequalities, with zero products, is valid, and the
  three-argument constructor returns it.
\<close>

theorem could_be_physically_valid:
  "(CouldBePhysicallyValid prec I \<longleftrightarrow>
      \<not> IsNaN I \<and>
      (let \<epsilon> = Fin prec * CalcMaximumPossibleMomentOfInertia I
       in Fin 0 \<le> m00 I + \<epsilon> \<and> Fin 0 \<le> m11 I + \<epsilon> \<and> Fin 0 \<le> m22 I + \<epsilon> \<and>
          m22 I \<le> m00 I + m11 I + \<epsilon> \<and> m11 I \<le> m00 I + m22 I + \<epsilon> \<and>
          m00 I \<le> m11 I + m22 I + \<epsilon>))
   \<and> (IsFinite I \<longrightarrow>
        (CouldBePhysicallyValid prec I \<longleftrightarrow>
           (let a = val (m00 I); b = val (m11 I); c = val (m22 I);
                \<epsilon> = prec * (1 / 2 * \<bar>a + b + c\<bar>)
            in - \<epsilon> \<le> a \<and> - \<epsilon> \<le> b \<and> - \<epsilon> \<le> c \<and>
               c \<le> a + b + \<epsilon> \<and> b \<le> a + c + \<epsilon> \<and> a \<le> b + c + \<epsilon>)))
   \<and> (0 \<le> prec \<and> 0 \<le> a \<and> 0 \<le> b \<and> 0 \<le> c \<and> c \<le> a + b \<and> b \<le> a + c \<and> a \<le> b + c \<longrightarrow>
        CouldBePhysicallyValid prec (lower6 a b c 0 0 0) \<and>
        RotationalInertia3 armed prec (Fin a) (Fin b) (Fin c) = Inr (lower6 a b c 0 0 0))"
proof (intro conjI impI)
  show "CouldBePhysicallyValid prec I \<longleftrightarrow>
      \<not> IsNaN I \<and>
      (let \<epsilon> = Fin prec * CalcMaximumPossibleMomentOfInertia I
       in Fin 0 \<le> m00 I + \<epsilon> \<and> Fin 0 \<le> m11 I + \<epsilon> \<and> Fin 0 \<le> m22 I + \<epsilon> \<and>
          m22 I \<le> m00 I + m11 I + \<epsilon> \<and> m11 I \<le> m00 I + m22 I + \<epsilon> \<and>
          m00 I \<le> m11 I + m22 I + \<epsilon>)"
    by (simp add: valid_unfold AreMomentsOfInertiaNearPositiveAndSatisfyTriangleInequality_def
        AreMomentsOfInertiaNearPositive_def Let_def)
next
  assume "IsFinite I"
  then show "CouldBePhysicallyValid prec I \<longleftrightarrow>
           (let a = val (m00 I); b = val (m11 I); c = val (m22 I);
                \<epsilon> = prec * (1 / 2 * \<bar>a + b + c\<bar>)
            in - \<epsilon> \<le> a \<and> - \<epsilon> \<le> b \<and> - \<epsilon> \<le> c \<and>
               c \<le> a + b + \<epsilon> \<and> b \<le> a + c + \<epsilon> \<and> a \<le> b + c + \<epsilon>)"
    by (simp add: valid_finite Let_def) argo
next
  assume h: "0 \<le> prec \<and> 0 \<le> a \<and> 0 \<le> b \<and> 0 \<le> c \<and> c \<le> a + b \<and> b \<le> a + c \<and> a \<le> b + c"
  then show v: "CouldBePhysicallyValid prec (lower6 a b c 0 0 0)"
    by (intro valid_nonneg_triangle) (simp_all add: IsFinite_def lower6_def)
  then show "RotationalInertia3 armed prec (Fin a) (Fin b) (Fin c) = Inr (lower6 a b c 0 0 0)"
    by (simp add: RotationalInertia3_def RotationalInertia6_def stored_lower6 valid_no_throw)
qed

theorem could_be_physically_valid_witness:
  "IsFinite (lower6 3 4 5 0 0 0)
   \<and> CouldBePhysicallyValid (1 / 4) (lower6 3 4 5 0 0 0)
   \<and> RotationalInertia3 True (1 / 4) (Fin 3) (Fin 4) (Fin 5) = Inr (lower6 3 4 5 0 0 0)
   \<and> \<not> CouldBePhysicallyValid (1 / 4) (lower6 3 4 20 0 0 0)"
proof -
  have f: "IsFinite (lower6 3 4 5 0 0 0)" "IsFinite (lower6 3 4 20 0 0 0)"
    by (simp_all add: IsFinite_def lower6_def)
  from could_be_physically_valid [of "1 / 4" "lower6 3 4 20 0 0 0" 3 4 5 True] f
  show ?thesis
    by (simp add: lower6_def IsNaN_def CalcMaximumPossibleMomentOfInertia_def Trace_def)
qed

section \<open>Claims: exceptions and the receiver\<close>

text \<open>
  Claim C2, as the code has it. \<open>operator-=\<close> subtracts in place first and checks
  afterwards: whether or not the check throws, the receiver holds the difference, and
  \<open>ShiftToCenterOfMassInPlace\<close> inherits this once its point-mass tensor is built. The
  operations that check before they write leave the receiver as it was when they throw:
  \<open>operator*=\<close>, \<open>operator/=\<close>, \<open>ShiftFromCenterOfMassInPlace\<close> and
  \<open>ShiftToThenAwayFromCenterOfMassInPlace\<close>.
\<close>

theorem failed_check_and_receiver:
  "snd (minus_eq armed prec B I) = MinusEqualsUnchecked B I
   \<and> (case RotationalInertia_point armed prec mass p of
         Inl e \<Rightarrow> ShiftToCenterOfMassInPlace armed prec mass p I = (Some e, I)
       | Inr pm \<Rightarrow>
           snd (ShiftToCenterOfMassInPlace armed prec mass p I) = MinusEqualsUnchecked pm I)
   \<and> (fst (times_eq armed s I) \<noteq> None \<longrightarrow> snd (times_eq armed s I) = I)
   \<and> (fst (divide_eq armed s I) \<noteq> None \<longrightarrow> snd (divide_eq armed s I) = I)
   \<and> (fst (ShiftFromCenterOfMassInPlace armed prec mass p I) \<noteq> None \<longrightarrow>
        snd (ShiftFromCenterOfMassInPlace armed prec mass p I) = I)
   \<and> (fst (ShiftToThenAwayFromCenterOfMassInPlace armed prec mass p q I) \<noteq> None \<longrightarrow>
        snd (ShiftToThenAwayFromCenterOfMassInPlace armed prec mass p q I) = I)"
  by (auto simp: minus_eq_def ShiftToCenterOfMassInPlace_def times_eq_def divide_eq_def
      ShiftFromCenterOfMassInPlace_def ShiftToThenAwayFromCenterOfMassInPlace_def Let_def
      split: sum.splits option.splits)

theorem failed_check_and_receiver_witness:
  "fst (times_eq True (Fin (- 1)) (lower6 2 1 1 0 0 0)) \<noteq> None
   \<and> snd (times_eq True (Fin (- 1)) (lower6 2 1 1 0 0 0)) = lower6 2 1 1 0 0 0
   \<and> fst (divide_eq True (Fin (- 1)) (lower6 2 1 1 0 0 0)) \<noteq> None
   \<and> snd (divide_eq True (Fin (- 1)) (lower6 2 1 1 0 0 0)) = lower6 2 1 1 0 0 0
   \<and> snd (minus_eq True example_prec (lower6 0 2 2 0 0 0) (lower6 2 1 1 0 0 0)) =
       lower6 2 (- 1) (- 1) 0 0 0"
proof -
  have t: "fst (times_eq True (Fin (- 1)) (lower6 2 1 1 0 0 0)) \<noteq> None"
    by (simp add: times_eq_def DRAKE_ASSERT_VOID_def ThrowIfMultiplyByNegativeScalar_def)
  have d: "fst (divide_eq True (Fin (- 1)) (lower6 2 1 1 0 0 0)) \<noteq> None"
    by (simp add: divide_eq_def DRAKE_ASSERT_VOID_def ThrowIfDivideByZeroOrNegativeScalar_def)
  from failed_check_and_receiver [of True example_prec "lower6 0 2 2 0 0 0"
      "lower6 2 1 1 0 0 0" "Fin 2" "(Fin 1, Fin 0, Fin 0)" "Fin (- 1)" "(Fin 1, Fin 0, Fin 0)"]
    t d
  show ?thesis
    by (simp add: minus_lower6)
qed

text \<open>
  The claim as stated fails: in a build with assertions armed, subtracting the valid
  tensor with moments (0, 2, 2) from the valid tensor with moments (2, 1, 1) throws, and
  the receiver is left holding the moments (2, -1, -1).
\<close>

theorem failed_subtraction_changes_receiver:
  "RotationalInertia3 True example_prec (Fin 2) (Fin 1) (Fin 1) = Inr (lower6 2 1 1 0 0 0)
   \<and> RotationalInertia3 True example_prec (Fin 0) (Fin 2) (Fin 2) = Inr (lower6 0 2 2 0 0 0)
   \<and> minus_eq True example_prec (lower6 0 2 2 0 0 0) (lower6 2 1 1 0 0 0) =
       (Some NotPhysicallyValid, lower6 2 (- 1) (- 1) 0 0 0)
   \<and> lower6 2 (- 1) (- 1) 0 0 0 \<noteq> lower6 2 1 1 0 0 0"
proof -
  have v: "CouldBePhysicallyValid example_prec (lower6 2 1 1 0 0 0)"
    "CouldBePhysicallyValid example_prec (lower6 0 2 2 0 0 0)"
    by (rule valid_nonneg_triangle; simp add: example_prec_nonneg IsFinite_def lower6_def)+
  then show ?thesis
    by (simp add: RotationalInertia3_def RotationalInertia6_def stored_lower6 valid_no_throw
        minus_eq_2_1_1) (simp add: lower6_def)
qed

section \<open>Claims: comparison\<close>

text \<open>
  Claim C3, as the code has it. \<open>IsNearlyEqualTo\<close> compares the moments and the products
  elementwise against the tolerance \<open>precision * min (maxA, maxB)\<close>, where the largest
  possible moment of a tensor is half the absolute value of its trace. On finite stored
  values it is true exactly when each of the six differences is within that tolerance.
  When both traces are non-negative this is the spec's half trace.
\<close>

theorem nearly_equal_tolerance:
  "(IsNearlyEqualTo B p A \<longleftrightarrow>
      IsApproxMomentsAndProducts B
        (Fin p * std_min (CalcMaximumPossibleMomentOfInertia A)
                   (CalcMaximumPossibleMomentOfInertia B)) A)
   \<and> (IsFinite A \<longrightarrow>
        CalcMaximumPossibleMomentOfInertia A =
          Fin (1 / 2 * \<bar>val (m00 A) + val (m11 A) + val (m22 A)\<bar>))
   \<and> (IsFinite A \<and> IsFinite B \<longrightarrow>
        (IsNearlyEqualTo B p A \<longleftrightarrow>
           (let tol = p * min (1 / 2 * \<bar>val (m00 A) + val (m11 A) + val (m22 A)\<bar>)
                                 (1 / 2 * \<bar>val (m00 B) + val (m11 B) + val (m22 B)\<bar>)
            in \<bar>val (m00 A) - val (m00 B)\<bar> \<le> tol \<and> \<bar>val (m11 A) - val (m11 B)\<bar> \<le> tol \<and>
               \<bar>val (m22 A) - val (m22 B)\<bar> \<le> tol \<and> \<bar>val (m10 A) - val (m10 B)\<bar> \<le> tol \<and>
               \<bar>val (m20 A) - val (m20 B)\<bar> \<le> tol \<and> \<bar>val (m21 A) - val (m21 B)\<bar> \<le> tol)))
   \<and> (Fin 0 \<le> Trace A \<and> Fin 0 \<le> Trace B \<longrightarrow>
        IsNearlyEqualTo B p A = IsNearlyEqualTo_spec B p A)"
proof (intro conjI impI)
  show "IsNearlyEqualTo B p A \<longleftrightarrow>
      IsApproxMomentsAndProducts B
        (Fin p * std_min (CalcMaximumPossibleMomentOfInertia A)
                   (CalcMaximumPossibleMomentOfInertia B)) A"
    by (simp add: IsNearlyEqualTo_def Let_def)
next
  assume "IsFinite A"
  then show "CalcMaximumPossibleMomentOfInertia A =
      Fin (1 / 2 * \<bar>val (m00 A) + val (m11 A) + val (m22 A)\<bar>)"
    by (rule max_moment_finite)
next
  assume f: "IsFinite A \<and> IsFinite B"
  then have e: "Fin p * std_min (CalcMaximumPossibleMomentOfInertia A)
                   (CalcMaximumPossibleMomentOfInertia B) =
      Fin (p * min (1 / 2 * \<bar>val (m00 A) + val (m11 A) + val (m22 A)\<bar>)
                   (1 / 2 * \<bar>val (m00 B) + val (m11 B) + val (m22 B)\<bar>))"
    by (simp only: max_moment_finite fin_std_min times_scalar.simps)
  from f show "IsNearlyEqualTo B p A \<longleftrightarrow>
           (let tol = p * min (1 / 2 * \<bar>val (m00 A) + val (m11 A) + val (m22 A)\<bar>)
                                 (1 / 2 * \<bar>val (m00 B) + val (m11 B) + val (m22 B)\<bar>)
            in \<bar>val (m00 A) - val (m00 B)\<bar> \<le> tol \<and> \<bar>val (m11 A) - val (m11 B)\<bar> \<le> tol \<and>
               \<bar>val (m22 A) - val (m22 B)\<bar> \<le> tol \<and> \<bar>val (m10 A) - val (m10 B)\<bar> \<le> tol \<and>
               \<bar>val (m20 A) - val (m20 B)\<bar> \<le> tol \<and> \<bar>val (m21 A) - val (m21 B)\<bar> \<le> tol)"
    unfolding IsNearlyEqualTo_def Let_def e by (simp only: approx_finite)
next
  assume "Fin 0 \<le> Trace A \<and> Fin 0 \<le> Trace B"
  then show "IsNearlyEqualTo B p A = IsNearlyEqualTo_spec B p A"
    by (simp add: IsNearlyEqualTo_def IsNearlyEqualTo_spec_def Let_def max_moment_nonneg_trace)
qed

theorem nearly_equal_tolerance_witness:
  "IsFinite (lower6 2 2 4 0 0 0) \<and> IsFinite (lower6 2 3 4 0 0 0)
   \<and> Fin 0 \<le> Trace (lower6 2 2 4 0 0 0) \<and> Fin 0 \<le> Trace (lower6 2 3 4 0 0 0)
   \<and> CalcMaximumPossibleMomentOfInertia (lower6 2 2 4 0 0 0) = Fin 4
   \<and> IsNearlyEqualTo (lower6 2 3 4 0 0 0) (1 / 4) (lower6 2 2 4 0 0 0)
   \<and> IsNearlyEqualTo_spec (lower6 2 3 4 0 0 0) (1 / 4) (lower6 2 2 4 0 0 0)"
proof -
  have f: "IsFinite (lower6 2 2 4 0 0 0)" "IsFinite (lower6 2 3 4 0 0 0)"
    by (simp_all add: IsFinite_def lower6_def)
  have t: "Fin 0 \<le> Trace (lower6 2 2 4 0 0 0)" "Fin 0 \<le> Trace (lower6 2 3 4 0 0 0)"
    by (simp_all add: Trace_def lower6_def)
  note w = nearly_equal_tolerance [of "lower6 2 3 4 0 0 0" "1 / 4" "lower6 2 2 4 0 0 0"]
  from w [THEN conjunct2, THEN conjunct1] f
  have m: "CalcMaximumPossibleMomentOfInertia (lower6 2 2 4 0 0 0) = Fin 4"
    by (simp add: lower6_def)
  from w [THEN conjunct2, THEN conjunct2, THEN conjunct1] f
  have n: "IsNearlyEqualTo (lower6 2 3 4 0 0 0) (1 / 4) (lower6 2 2 4 0 0 0)"
    by (simp add: lower6_def)
  from w t n have "IsNearlyEqualTo_spec (lower6 2 3 4 0 0 0) (1 / 4) (lower6 2 2 4 0 0 0)"
    by blast
  with f t m n show ?thesis
    by blast
qed

text \<open>
  The claim as stated fails for a negative trace: the tensor with moments (-1, -1, -1),
  which the factory returns when asked to skip its check, is nearly equal to itself for
  the code, whose tolerance is 3/2, and not for the half trace, whose tolerance is -3/2.
\<close>

theorem nearly_equal_negative_trace:
  "MakeFromMomentsAndProductsOfInertia example_prec (Fin (- 1)) (Fin (- 1)) (Fin (- 1))
      (Fin 0) (Fin 0) (Fin 0) True = Inr (lower6 (- 1) (- 1) (- 1) 0 0 0)
   \<and> CalcMaximumPossibleMomentOfInertia (lower6 (- 1) (- 1) (- 1) 0 0 0) = Fin (3 / 2)
   \<and> maxPossibleMoment_spec (lower6 (- 1) (- 1) (- 1) 0 0 0) = Fin (- 3 / 2)
   \<and> IsNearlyEqualTo (lower6 (- 1) (- 1) (- 1) 0 0 0) 1 (lower6 (- 1) (- 1) (- 1) 0 0 0)
   \<and> \<not> IsNearlyEqualTo_spec (lower6 (- 1) (- 1) (- 1) 0 0 0) 1
         (lower6 (- 1) (- 1) (- 1) 0 0 0)"
  by (simp add: MakeFromMomentsAndProductsOfInertia_def stored_lower6 IsNearlyEqualTo_def
      IsNearlyEqualTo_spec_def IsApproxMomentsAndProducts_def get_moments_def get_products_def
      CalcMaximumPossibleMomentOfInertia_def maxPossibleMoment_spec_def Trace_def std_min_def
      std_max_def minus_scalar_def lower6_def)

section \<open>Claims: shifts\<close>

text \<open>
  Claim C4, as the code has it. On finite values, whenever the fused shift and the two
  calls it replaces both return without throwing, they leave the same tensor in the
  receiver; with assertions compiled out both always return. The fused shift takes the
  difference of its two unit-mass tensors with the unchecked subtraction.
\<close>

theorem fused_shift_agrees_when_both_return:
  assumes "IsFinite I" "isfinite m" "finite_v p" "finite_v q"
  shows "(fst (ShiftToThenAwayFromCenterOfMassInPlace armed prec m p q I) = None \<and>
          fst (shift_to_then_from armed prec m p q I) = None \<longrightarrow>
            snd (ShiftToThenAwayFromCenterOfMassInPlace armed prec m p q I) =
            snd (shift_to_then_from armed prec m p q I))
     \<and> ShiftToThenAwayFromCenterOfMassInPlace False prec m p q I =
         shift_to_then_from False prec m p q I
     \<and> fst (ShiftToThenAwayFromCenterOfMassInPlace False prec m p q I) = None
     \<and> (RotationalInertia_mp armed prec q q = Inr shift_away \<and>
        RotationalInertia_mp armed prec p p = Inr shift_towards \<longrightarrow>
          ShiftUnitMassBodyToThenAwayFromCenterOfMass armed prec p q =
            Inr (MinusEqualsUnchecked shift_towards shift_away))"
proof (intro conjI impI)
  assume "fst (ShiftToThenAwayFromCenterOfMassInPlace armed prec m p q I) = None \<and>
          fst (shift_to_then_from armed prec m p q I) = None"
  then show "snd (ShiftToThenAwayFromCenterOfMassInPlace armed prec m p q I) =
            snd (shift_to_then_from armed prec m p q I)"
    by (simp add: fused_not_raising two_calls_not_raising fused_algebra [OF assms])
next
  show "ShiftToThenAwayFromCenterOfMassInPlace False prec m p q I =
         shift_to_then_from False prec m p q I"
    by (simp add: fused_unarmed two_calls_unarmed fused_algebra [OF assms])
next
  show "fst (ShiftToThenAwayFromCenterOfMassInPlace False prec m p q I) = None"
    by (simp add: fused_unarmed)
next
  assume "RotationalInertia_mp armed prec q q = Inr shift_away \<and>
        RotationalInertia_mp armed prec p p = Inr shift_towards"
  then show "ShiftUnitMassBodyToThenAwayFromCenterOfMass armed prec p q =
            Inr (MinusEqualsUnchecked shift_towards shift_away)"
    by (simp add: ShiftUnitMassBodyToThenAwayFromCenterOfMass_def)
qed

theorem fused_shift_agrees_when_both_return_witness:
  "IsFinite (lower6 2 3 3 0 0 0) \<and> isfinite (Fin 2)
   \<and> finite_v (Fin 1, Fin 0, Fin 0) \<and> finite_v (Fin 0, Fin 1, Fin 0)
   \<and> fst (ShiftToThenAwayFromCenterOfMassInPlace True example_prec (Fin 2) (Fin 1, Fin 0, Fin 0)
           (Fin 0, Fin 1, Fin 0) (lower6 2 3 3 0 0 0)) = None
   \<and> fst (shift_to_then_from True example_prec (Fin 2) (Fin 1, Fin 0, Fin 0)
           (Fin 0, Fin 1, Fin 0) (lower6 2 3 3 0 0 0)) = None
   \<and> snd (ShiftToThenAwayFromCenterOfMassInPlace True example_prec (Fin 2) (Fin 1, Fin 0, Fin 0)
           (Fin 0, Fin 1, Fin 0) (lower6 2 3 3 0 0 0)) =
       snd (shift_to_then_from True example_prec (Fin 2) (Fin 1, Fin 0, Fin 0)
           (Fin 0, Fin 1, Fin 0) (lower6 2 3 3 0 0 0))
   \<and> snd (shift_to_then_from True example_prec (Fin 2) (Fin 1, Fin 0, Fin 0)
           (Fin 0, Fin 1, Fin 0) (lower6 2 3 3 0 0 0)) = lower6 4 1 3 0 0 0"
proof -
  have f: "IsFinite (lower6 2 3 3 0 0 0)" "isfinite (Fin 2)" "finite_v (Fin 1, Fin 0, Fin 0)"
    "finite_v (Fin 0, Fin 1, Fin 0)"
    by (simp_all add: IsFinite_def lower6_def)
  have two: "shift_to_then_from True example_prec (Fin 2) (Fin 1, Fin 0, Fin 0)
           (Fin 0, Fin 1, Fin 0) (lower6 2 3 3 0 0 0) = (None, lower6 4 1 3 0 0 0)"
    by (simp add: shift_to_then_from_def and_then_def shift_to_2_3_3 shift_from_2_1_1_along_y
        example_prec_nonneg)
  have fused: "fst (ShiftToThenAwayFromCenterOfMassInPlace True example_prec (Fin 2)
           (Fin 1, Fin 0, Fin 0) (Fin 0, Fin 1, Fin 0) (lower6 2 3 3 0 0 0)) = None"
    by (simp add: fused_2_3_3 example_prec_nonneg)
  from fused_shift_agrees_when_both_return [OF f, of True example_prec] fused two f
  show ?thesis
    by simp
qed

text \<open>
  The claim as stated fails: for the valid tensor with moments (2, 1, 1), mass 2 and both
  offsets (1, 0, 0), the fused shift returns the tensor unchanged, while the first of the
  two calls throws on its intermediate difference (2, -1, -1).
\<close>

theorem fused_shift_differs_from_two_calls:
  "CouldBePhysicallyValid example_prec (lower6 2 1 1 0 0 0)
   \<and> ShiftToThenAwayFromCenterOfMassInPlace True example_prec (Fin 2) (Fin 1, Fin 0, Fin 0)
       (Fin 1, Fin 0, Fin 0) (lower6 2 1 1 0 0 0) = (None, lower6 2 1 1 0 0 0)
   \<and> shift_to_then_from True example_prec (Fin 2) (Fin 1, Fin 0, Fin 0)
       (Fin 1, Fin 0, Fin 0) (lower6 2 1 1 0 0 0) =
       (Some NotPhysicallyValid, lower6 2 (- 1) (- 1) 0 0 0)"
  by (simp add: valid_2_1_1 fused_2_1_1 shift_to_then_from_def and_then_def shift_to_2_1_1
      example_prec_nonneg)

text \<open>
  Claim C5, as the code has it. On finite values, whenever \<open>ShiftToCenterOfMass(m, d)\<close>
  returns a tensor, \<open>ShiftFromCenterOfMass(m, d)\<close> applied to it returns the original
  tensor exactly; when it throws, so does the round trip. With assertions compiled out the
  round trip always returns the original tensor. The two const calls work on copies, so
  the original is an argument that nothing changes.
\<close>

theorem round_trip_exact:
  assumes "IsFinite I" "isfinite m" "finite_v d"
  shows "(ShiftToCenterOfMass armed prec m d I = Inr J \<longrightarrow>
            ShiftFromCenterOfMass armed prec m d J = Inr I \<and>
            round_trip armed prec m d I = Inr I)
     \<and> (ShiftToCenterOfMass armed prec m d I = Inl e \<longrightarrow> round_trip armed prec m d I = Inl e)
     \<and> round_trip False prec m d I = Inr I"
proof (intro conjI impI)
  assume h: "ShiftToCenterOfMass armed prec m d I = Inr J"
  from shift_back [OF assms h]
  show b: "ShiftFromCenterOfMass armed prec m d J = Inr I" .
  from h b show "round_trip armed prec m d I = Inr I"
    by (simp add: round_trip_def)
next
  assume "ShiftToCenterOfMass armed prec m d I = Inl e"
  then show "round_trip armed prec m d I = Inl e"
    by (simp add: round_trip_def)
next
  from shift_back [OF assms shift_to_unarmed]
  show "round_trip False prec m d I = Inr I"
    by (simp add: round_trip_def shift_to_unarmed)
qed

theorem round_trip_exact_witness:
  "IsFinite (lower6 2 3 3 0 0 0) \<and> isfinite (Fin 2) \<and> finite_v (Fin 1, Fin 0, Fin 0)
   \<and> ShiftToCenterOfMass True example_prec (Fin 2) (Fin 1, Fin 0, Fin 0) (lower6 2 3 3 0 0 0) =
       Inr (lower6 2 1 1 0 0 0)
   \<and> ShiftFromCenterOfMass True example_prec (Fin 2) (Fin 1, Fin 0, Fin 0)
       (lower6 2 1 1 0 0 0) = Inr (lower6 2 3 3 0 0 0)
   \<and> round_trip True example_prec (Fin 2) (Fin 1, Fin 0, Fin 0) (lower6 2 3 3 0 0 0) =
       Inr (lower6 2 3 3 0 0 0)"
proof -
  have f: "IsFinite (lower6 2 3 3 0 0 0)" "isfinite (Fin 2)" "finite_v (Fin 1, Fin 0, Fin 0)"
    by (simp_all add: IsFinite_def lower6_def)
  have h: "ShiftToCenterOfMass True example_prec (Fin 2) (Fin 1, Fin 0, Fin 0)
      (lower6 2 3 3 0 0 0) = Inr (lower6 2 1 1 0 0 0)"
    by (simp add: ShiftToCenterOfMass_def shift_to_2_3_3 example_prec_nonneg)
  from round_trip_exact [OF f, of True example_prec "lower6 2 1 1 0 0 0"] h f
  show ?thesis
    by simp
qed

text \<open>
  The claim as stated fails: the tensor with moments (2, 1, 1) is valid, and in a build
  with assertions armed its shift to the centre of mass for mass 2 at offset (1, 0, 0)
  throws, so the round trip returns no tensor.
\<close>

theorem round_trip_raises:
  "CouldBePhysicallyValid example_prec (lower6 2 1 1 0 0 0)
   \<and> round_trip True example_prec (Fin 2) (Fin 1, Fin 0, Fin 0) (lower6 2 1 1 0 0 0) =
       Inl NotPhysicallyValid"
  by (simp add: valid_2_1_1 round_trip_def ShiftToCenterOfMass_def shift_to_2_1_1
      example_prec_nonneg)

section \<open>Claims: scaling\<close>

text \<open>
  Claim C6. Multiplying by a scalar throws an invalid-scale error exactly when the check is
  armed and the scalar is negative, and otherwise returns the tensor with each of the six
  stored values multiplied by the scalar. Dividing by a scalar throws an invalid-scale
  error exactly when the check is armed and the scalar is zero or negative, and otherwise
  returns the tensor with each of the six stored values multiplied by the reciprocal of
  the scalar. The in-place operators leave the receiver as it was when they throw. The
  equations hold for every scalar and every tensor: in the checked build the operators
  throw exactly on the scalars named, and with the check compiled out they always return.
\<close>

theorem scale_raises_exactly_on_bad_scalar:
  "times_eq armed s I =
     (if armed \<and> s < Fin 0 then (Some MultiplyByNegativeScalar, I)
      else (None, scale_lower s I))
   \<and> times_op armed s I =
       (if armed \<and> s < Fin 0 then Inl MultiplyByNegativeScalar else Inr (scale_lower s I))
   \<and> divide_eq armed s I =
       (if armed \<and> s = Fin 0 then (Some DivideByZero, I)
        else if armed \<and> s < Fin 0 then (Some DivideByNegativeScalar, I)
        else (None, scale_lower (Fin 1 / s) I))
   \<and> divide_op armed s I =
       (if armed \<and> s = Fin 0 then Inl DivideByZero
        else if armed \<and> s < Fin 0 then Inl DivideByNegativeScalar
        else Inr (scale_lower (Fin 1 / s) I))
   \<and> (throws_invalid_scale (returning (times_eq armed s I)) \<longleftrightarrow> armed \<and> s < Fin 0)
   \<and> (throws_invalid_scale (times_op armed s I) \<longleftrightarrow> armed \<and> s < Fin 0)
   \<and> (throws_invalid_scale (returning (divide_eq armed s I)) \<longleftrightarrow> armed \<and> s \<le> Fin 0)
   \<and> (throws_invalid_scale (divide_op armed s I) \<longleftrightarrow> armed \<and> s \<le> Fin 0)
   \<and> (times_op armed s I = Inr K \<longrightarrow> K = scale_lower s I)
   \<and> (divide_op armed s I = Inr K \<longrightarrow> K = scale_lower (Fin 1 / s) I)
   \<and> get_moments (scale_lower k I) = (m00 I * k, m11 I * k, m22 I * k)
   \<and> get_products (scale_lower k I) = (m10 I * k, m20 I * k, m21 I * k)
   \<and> upper (scale_lower k I) = upper I
   \<and> (0 \<le> r \<longrightarrow>
        times_op armed (Fin r) (lower6 a b c d e f) =
          Inr (lower6 (a * r) (b * r) (c * r) (d * r) (e * r) (f * r)))
   \<and> (0 < r \<longrightarrow>
        divide_op armed (Fin r) (lower6 a b c d e f) =
          Inr (lower6 (a * (1 / r)) (b * (1 / r)) (c * (1 / r))
                 (d * (1 / r)) (e * (1 / r)) (f * (1 / r))))"
  apply (rule conjI, rule times_eq_total)
  apply (rule conjI, rule times_op_total)
  apply (rule conjI, rule divide_eq_total)
  apply (rule conjI, rule divide_op_total)
  apply (rule conjI, rule times_eq_throws_iff)
  apply (rule conjI, rule times_op_throws_iff)
  apply (rule conjI, rule divide_eq_throws_iff)
  apply (rule conjI, rule divide_op_throws_iff)
  apply (rule conjI, rule times_op_result)
  apply (rule conjI, rule divide_op_result)
  apply (rule conjI, rule scale_lower_entries(1))
  apply (rule conjI, rule scale_lower_entries(2))
  apply (rule conjI, rule scale_lower_entries(3))
  apply (rule conjI, rule times_op_finite)
  apply (rule divide_op_finite)
  done

theorem scale_raises_exactly_on_bad_scalar_witness:
  "Fin (- 1) < Fin 0 \<and> \<not> Fin 2 < Fin 0 \<and> Fin 2 \<noteq> Fin 0
   \<and> times_op True (Fin (- 1)) (lower6 1 2 3 0 0 0) = Inl MultiplyByNegativeScalar
   \<and> times_eq True (Fin (- 1)) (lower6 1 2 3 0 0 0) =
       (Some MultiplyByNegativeScalar, lower6 1 2 3 0 0 0)
   \<and> divide_op True (Fin 0) (lower6 1 2 3 0 0 0) = Inl DivideByZero
   \<and> divide_op True (Fin (- 1)) (lower6 1 2 3 0 0 0) = Inl DivideByNegativeScalar
   \<and> times_op True (Fin 2) (lower6 1 2 3 0 0 0) = Inr (lower6 2 4 6 0 0 0)
   \<and> divide_op True (Fin 2) (lower6 2 4 6 0 0 0) = Inr (lower6 1 2 3 0 0 0)
   \<and> divide_eq True (Fin 2) (lower6 2 4 6 0 0 0) = (None, lower6 1 2 3 0 0 0)
   \<and> times_op False (Fin (- 1)) (lower6 1 2 3 0 0 0) = Inr (lower6 (- 1) (- 2) (- 3) 0 0 0)"
proof -
  have h: "Fin 1 / Fin 2 = Fin (1 / 2)"
    by simp
  note neg = scale_raises_exactly_on_bad_scalar
    [where armed = True and s = "Fin (- 1)" and I = "lower6 1 2 3 0 0 0"]
  note zero = scale_raises_exactly_on_bad_scalar
    [where armed = True and s = "Fin 0" and I = "lower6 1 2 3 0 0 0"]
  note two = scale_raises_exactly_on_bad_scalar
    [where armed = True and s = "Fin 2" and I = "lower6 1 2 3 0 0 0"]
  note half = scale_raises_exactly_on_bad_scalar
    [where armed = True and s = "Fin 2" and I = "lower6 2 4 6 0 0 0"]
  note rel = scale_raises_exactly_on_bad_scalar
    [where armed = False and s = "Fin (- 1)" and I = "lower6 1 2 3 0 0 0"]
  have a1: "times_eq True (Fin (- 1)) (lower6 1 2 3 0 0 0) =
       (Some MultiplyByNegativeScalar, lower6 1 2 3 0 0 0)"
    using neg [THEN conjunct1] by simp
  have a2: "times_op True (Fin (- 1)) (lower6 1 2 3 0 0 0) = Inl MultiplyByNegativeScalar"
    using neg [THEN conjunct2, THEN conjunct1] by simp
  have a3: "divide_op True (Fin (- 1)) (lower6 1 2 3 0 0 0) = Inl DivideByNegativeScalar"
    using neg [THEN conjunct2, THEN conjunct2, THEN conjunct2, THEN conjunct1] by simp
  have b: "divide_op True (Fin 0) (lower6 1 2 3 0 0 0) = Inl DivideByZero"
    using zero [THEN conjunct2, THEN conjunct2, THEN conjunct2, THEN conjunct1] by simp
  have c: "times_op True (Fin 2) (lower6 1 2 3 0 0 0) = Inr (lower6 2 4 6 0 0 0)"
    using two [THEN conjunct2, THEN conjunct1] by (simp add: scale_lower6)
  have d1: "divide_eq True (Fin 2) (lower6 2 4 6 0 0 0) = (None, lower6 1 2 3 0 0 0)"
    using half [THEN conjunct2, THEN conjunct2, THEN conjunct1]
    by (simp add: h scale_lower6 del: divide_scalar.simps)
  have d2: "divide_op True (Fin 2) (lower6 2 4 6 0 0 0) = Inr (lower6 1 2 3 0 0 0)"
    using half [THEN conjunct2, THEN conjunct2, THEN conjunct2, THEN conjunct1]
    by (simp add: h scale_lower6 del: divide_scalar.simps)
  have e: "times_op False (Fin (- 1)) (lower6 1 2 3 0 0 0) =
      Inr (lower6 (- 1) (- 2) (- 3) 0 0 0)"
    using rel [THEN conjunct2, THEN conjunct1] by (simp add: scale_lower6)
  have n: "Fin (- 1) < Fin 0" "\<not> Fin 2 < Fin 0" "Fin 2 \<noteq> Fin 0"
    by simp_all
  from n a1 a2 a3 b c d1 d2 e show ?thesis
    by (intro conjI)
qed

section \<open>Claims: the point-mass constructor\<close>

text \<open>
  Claim C7. For a finite non-negative mass \<open>m\<close> and a finite offset \<open>d\<close> the point-mass
  constructor returns the tensor \<open>m (\<parallel>d\<parallel>\<^sup>2 Id - d d\<^sup>T)\<close> (for any finite mass when assertions
  are compiled out). Mass 2 at offset (1, 0, 0) gives the moments (0, 2, 2) and zero
  products; mass 2 at offset (1, 1, 0) gives the moments (2, 2, 4), the product
  Ixy = -2 and two zero products.
\<close>

theorem point_mass_constructor:
  "(0 \<le> prec \<and> 0 \<le> m \<longrightarrow>
      RotationalInertia_point armed prec (Fin m) (Fin x, Fin y, Fin z) =
        Inr (point_mass_tensor m (x, y, z)))
   \<and> RotationalInertia_point False prec (Fin m) (Fin x, Fin y, Fin z) =
       Inr (point_mass_tensor m (x, y, z))
   \<and> (0 \<le> prec \<longrightarrow>
        RotationalInertia_point armed prec (Fin 2) (Fin 1, Fin 0, Fin 0) =
          Inr (lower6 0 2 2 0 0 0))
   \<and> (0 \<le> prec \<longrightarrow>
        RotationalInertia_point armed prec (Fin 2) (Fin 1, Fin 1, Fin 0) =
          Inr (lower6 2 2 4 (- 2) 0 0))"
  by (simp add: point_nonneg_mass point_unarmed point_mass_2_at_100 point_mass_2_at_110)

theorem point_mass_constructor_witness:
  "(0::real) \<le> 1 / 4 \<and> (0::real) \<le> 3
   \<and> RotationalInertia_point True (1 / 4) (Fin 3) (Fin 1, Fin 2, Fin 0) =
       Inr (lower6 12 3 15 (- 6) 0 0)
   \<and> RotationalInertia_point True (1 / 4) (Fin 2) (Fin 1, Fin 1, Fin 0) =
       Inr (lower6 2 2 4 (- 2) 0 0)"
  using point_mass_constructor [of "1 / 4" 3 True 1 2 0]
  by (simp add: point_mass_tensor_def)

section \<open>Claims: principal moments\<close>

text \<open>
  Claim C8. Whatever pair \<open>CalcPrincipalMomentsAndAxesOfInertia\<close> returns for a tensor, and
  whatever triple \<open>CalcPrincipalMomentsOfInertia\<close> returns, the three principal moments
  add up to the trace Ixx + Iyy + Izz and are in ascending order. For a tensor with three
  equal diagonal values and zero products the only result is those three values with the
  identity rotation.
\<close>

theorem principal_moments_sum_to_trace:
  "(CalcPrincipalMomentsAndAxesOfInertia I ((l1, l2, l3), R) \<longrightarrow>
      Fin (l1 + l2 + l3) = Trace I \<and> l1 \<le> l2 \<and> l2 \<le> l3)
   \<and> (CalcPrincipalMomentsOfInertia I (l1, l2, l3) \<longrightarrow>
        Fin (l1 + l2 + l3) = Trace I \<and> l1 \<le> l2 \<and> l2 \<le> l3)
   \<and> (CalcPrincipalMomentsAndAxesOfInertia (lower6 d d d 0 0 0) res \<longleftrightarrow>
        res = ((d, d, d), Identity_rotation))
   \<and> (CalcPrincipalMomentsOfInertia (lower6 d d d 0 0 0) moments \<longleftrightarrow> moments = (d, d, d))"
proof -
  have a: "Fin (l1 + l2 + l3) = Trace I \<and> l1 \<le> l2 \<and> l2 \<le> l3"
    if h: "CalcPrincipalMomentsAndAxesOfInertia I ((l1, l2, l3), R)" for R
  proof -
    obtain Ax Ay Az where R: "R = (Ax, Ay, Az)"
      by (metis prod_cases3)
    from h have fin: "IsFinite I" and ord: "l1 \<le> l2" "l2 \<le> l3"
      by (simp_all add: R)
    from fin have "Trace I = Fin (val (m00 I) + val (m11 I) + val (m22 I))"
      by (simp add: Trace_def IsFinite_def fin_arith)
    with principal_moments_sum [OF h] ord show ?thesis
      by simp
  qed
  have b: "CalcPrincipalMomentsOfInertia (lower6 d d d 0 0 0) moments \<longleftrightarrow> moments = (d, d, d)"
    by (auto simp: CalcPrincipalMomentsOfInertia_def triaxial_principal)
  have c1: "CalcPrincipalMomentsAndAxesOfInertia I ((l1, l2, l3), R) \<longrightarrow>
      Fin (l1 + l2 + l3) = Trace I \<and> l1 \<le> l2 \<and> l2 \<le> l3"
    using a by blast
  have c2: "CalcPrincipalMomentsOfInertia I (l1, l2, l3) \<longrightarrow>
      Fin (l1 + l2 + l3) = Trace I \<and> l1 \<le> l2 \<and> l2 \<le> l3"
    unfolding CalcPrincipalMomentsOfInertia_def using a by blast
  show ?thesis
    by (rule conjI, rule c1, rule conjI, rule c2, rule conjI, rule triaxial_principal, rule b)
qed

theorem principal_moments_sum_to_trace_witness:
  "CalcPrincipalMomentsAndAxesOfInertia (lower6 3 1 2 0 0 0)
     ((1, 2, 3), ((0, 1, 0), (0, 0, 1), (1, 0, 0)))
   \<and> CalcPrincipalMomentsOfInertia (lower6 3 1 2 0 0 0) (1, 2, 3)
   \<and> Trace (lower6 3 1 2 0 0 0) = Fin (1 + 2 + 3)
   \<and> CalcPrincipalMomentsAndAxesOfInertia (lower6 5 5 5 0 0 0) ((5, 5, 5), Identity_rotation)"
proof -
  have h: "CalcPrincipalMomentsAndAxesOfInertia (lower6 3 1 2 0 0 0)
     ((1, 2, 3), ((0, 1, 0), (0, 0, 1), (1, 0, 0)))"
    by (simp add: is_rotation_def eigenpair_def IsFinite_def lower6_def Let_def)
  then have m: "CalcPrincipalMomentsOfInertia (lower6 3 1 2 0 0 0) (1, 2, 3)"
    unfolding CalcPrincipalMomentsOfInertia_def by (rule exI)
  from principal_moments_sum_to_trace [of "lower6 3 1 2 0 0 0" 1 2 3
      "((0, 1, 0), (0, 0, 1), (1, 0, 0))" 5 "((5, 5, 5), Identity_rotation)"] h m
  show ?thesis
    by simp
qed

section \<open>Claims: sign of the offset\<close>

text \<open>
  Claim C9. The point-mass constructor stores the same values and has the same outcome
  for an offset and for its negation, and so has every shift: negating the offset of
  \<open>ShiftFromCenterOfMass\<close> or \<open>ShiftToCenterOfMass\<close>, or either or both offsets of
  \<open>ShiftToThenAwayFromCenterOfMass\<close>, in place or not, changes nothing.
\<close>

theorem point_mass_sign_invariance:
  "RotationalInertia_point armed prec m (neg_v d) = RotationalInertia_point armed prec m d
   \<and> ShiftFromCenterOfMass armed prec m (neg_v d) I = ShiftFromCenterOfMass armed prec m d I
   \<and> ShiftToCenterOfMass armed prec m (neg_v d) I = ShiftToCenterOfMass armed prec m d I
   \<and> ShiftToThenAwayFromCenterOfMass armed prec m (neg_v p) q I =
       ShiftToThenAwayFromCenterOfMass armed prec m p q I
   \<and> ShiftToThenAwayFromCenterOfMass armed prec m p (neg_v q) I =
       ShiftToThenAwayFromCenterOfMass armed prec m p q I
   \<and> ShiftFromCenterOfMassInPlace armed prec m (neg_v d) I =
       ShiftFromCenterOfMassInPlace armed prec m d I
   \<and> ShiftToCenterOfMassInPlace armed prec m (neg_v d) I =
       ShiftToCenterOfMassInPlace armed prec m d I
   \<and> ShiftToThenAwayFromCenterOfMassInPlace armed prec m (neg_v p) (neg_v q) I =
       ShiftToThenAwayFromCenterOfMassInPlace armed prec m p q I"
  by (simp add: RotationalInertia_point_def ShiftFromCenterOfMass_def ShiftToCenterOfMass_def
      ShiftToThenAwayFromCenterOfMass_def ShiftFromCenterOfMassInPlace_def
      ShiftToCenterOfMassInPlace_def ShiftToThenAwayFromCenterOfMassInPlace_def
      ShiftUnitMassBodyToThenAwayFromCenterOfMass_def mp_neg mp_unit_neg
      cong: sum.case_cong)

theorem point_mass_sign_invariance_witness:
  "RotationalInertia_point True (1 / 4) (Fin 2) (Fin (- 1), Fin (- 1), Fin 0) =
     Inr (lower6 2 2 4 (- 2) 0 0)
   \<and> RotationalInertia_point True (1 / 4) (Fin 2) (Fin 1, Fin 1, Fin 0) =
     Inr (lower6 2 2 4 (- 2) 0 0)"
proof -
  have r: "RotationalInertia_point True (1 / 4) (Fin 2) (Fin 1, Fin 1, Fin 0) =
     Inr (lower6 2 2 4 (- 2) 0 0)"
    by (simp add: point_nonneg_mass point_mass_2_at_110)
  from point_mass_sign_invariance [of True "1 / 4" "Fin 2" "(Fin 1, Fin 1, Fin 0)"] r
  show ?thesis
    by simp
qed

section \<open>Claims: diagnostic predicates and the unused upper triangle\<close>

text \<open>
  Claim C10. \<open>IsFinite\<close>, \<open>IsNaN\<close> and \<open>IsZero\<close> are determined by the six entries of the
  lower triangle: two matrices that agree there get the same three answers, whatever their
  upper triangles hold. \<open>SetZero\<close> and the setter leave the upper triangle as it is, so
  after \<open>SetZero\<close> on a default-constructed object the upper triangle still holds NaN while
  \<open>IsFinite\<close> and \<open>IsZero\<close> are true and \<open>IsNaN\<close> is false.
\<close>

theorem diagnostics_ignore_upper_triangle:
  "(same_lower I J \<longrightarrow>
      IsFinite I = IsFinite J \<and> IsNaN I = IsNaN J \<and> IsZero I = IsZero J)
   \<and> upper (SetZero I) = upper I
   \<and> upper (set_moments_and_products_no_validity_check a b c d e f I) = upper I
   \<and> upper (SetZero RotationalInertia_default) = (NaN, NaN, NaN)
   \<and> IsFinite (SetZero RotationalInertia_default)
   \<and> \<not> IsNaN (SetZero RotationalInertia_default)
   \<and> IsZero (SetZero RotationalInertia_default)"
  by (simp add: same_lower_def IsFinite_def IsNaN_def IsZero_def upper_def SetZero_def
      set_moments_and_products_no_validity_check_def RotationalInertia_default_def
      Matrix3_Constant_def)

theorem diagnostics_ignore_upper_triangle_witness:
  "same_lower (SetZero RotationalInertia_default) (SetZero (Matrix3_Constant PInf))
   \<and> upper (SetZero RotationalInertia_default) \<noteq> upper (SetZero (Matrix3_Constant PInf))
   \<and> IsFinite (SetZero RotationalInertia_default) = IsFinite (SetZero (Matrix3_Constant PInf))
   \<and> IsNaN (SetZero RotationalInertia_default) = IsNaN (SetZero (Matrix3_Constant PInf))
   \<and> IsZero (SetZero RotationalInertia_default) = IsZero (SetZero (Matrix3_Constant PInf))"
proof -
  have h: "same_lower (SetZero RotationalInertia_default) (SetZero (Matrix3_Constant PInf))"
    by (simp add: same_lower_def SetZero_def RotationalInertia_default_def Matrix3_Constant_def)
  have u: "upper (SetZero RotationalInertia_default) \<noteq> upper (SetZero (Matrix3_Constant PInf))"
    by (simp add: upper_def SetZero_def RotationalInertia_default_def Matrix3_Constant_def)
  from diagnostics_ignore_upper_triangle
    [of "SetZero RotationalInertia_default" "SetZero (Matrix3_Constant PInf)"] h u
  show ?thesis by blast
qed

end
